theory Spec2Isabelle
  imports Main
begin

section \<open>Common types\<close>

text \<open>
  Primary keys are natural numbers. A point in time is the number of seconds since the
  epoch (UTC), a calendar date the number of days since the epoch; \<open>date_of\<close> is
  \<^verbatim>\<open>timezone.now().date()\<close> applied to a given instant. Every function that reads the
  clock in the source takes the instant as its argument \<open>now\<close>.
\<close>

type_synonym pk = nat
type_synonym timestamp = int
type_synonym date = int

definition date_of :: "timestamp \<Rightarrow> date" where
  "date_of t = t div 86400"

text \<open>
  Exceptions that escape a view are not turned into a response by the framework's
  exception handler; they are the \<open>Unhandled\<close> outcome of a request. The handled
  outcomes are the HTTP responses the views build.
\<close>

datatype exn =
  SkipField | IntegrityError | DoesNotExist | ValueError | TypeError | KeyError | AssertionError

datatype 'a response =
    HTTP_200_OK 'a
  | HTTP_201_CREATED 'a
  | HTTP_400_BAD_REQUEST string
  | HTTP_401_UNAUTHORIZED
  | HTTP_403_FORBIDDEN
  | HTTP_404_NOT_FOUND
  | Unhandled exn

text \<open>
  A table is the list of its rows. \<open>objects_get\<close> is a lookup by primary key,
  \<open>objects_save\<close> is \<^verbatim>\<open>Model.save()\<close> of the base class: the row with the
  instance's key is overwritten, and a new row is appended when there is none.
\<close>

definition objects_get :: "('a \<Rightarrow> pk) \<Rightarrow> 'a list \<Rightarrow> pk \<Rightarrow> 'a option" where
  "objects_get key rows k = find (\<lambda>r. key r = k) rows"

definition objects_save :: "('a \<Rightarrow> pk) \<Rightarrow> 'a \<Rightarrow> 'a list \<Rightarrow> 'a list" where
  "objects_save key x rows =
     (case objects_get key rows (key x) of
        None \<Rightarrow> rows @ [x]
      | Some _ \<Rightarrow> map (\<lambda>r. if key r = key x then x else r) rows)"

definition fresh_pk :: "('a \<Rightarrow> pk) \<Rightarrow> 'a list \<Rightarrow> pk" where
  "fresh_pk key rows = Suc (fold max (map key rows) 0)"

section \<open>users/models.py\<close>

datatype role = ADMIN | GOVERNMENT | REAL_ESTATE_FIRM | PROPERTY_OWNER | BUYER_RENTER

text \<open>
  The columns of \<open>User\<close> that the permission layer and the serializers below read or
  write. The password hash, the profile picture and the uploaded KYC documents are
  carried by the row in the source and play no part in any decision modelled here.
\<close>

record user =
  user_pk :: pk
  email :: string
  first_name :: string
  last_name :: string
  role :: role
  is_verified :: bool
  is_staff :: bool
  is_superuser :: bool

definition is_admin :: "user \<Rightarrow> bool" where
  "is_admin u = (role u = ADMIN)"

definition is_government :: "user \<Rightarrow> bool" where
  "is_government u = (role u = GOVERNMENT)"

definition is_real_estate_firm :: "user \<Rightarrow> bool" where
  "is_real_estate_firm u = (role u = REAL_ESTATE_FIRM)"

definition is_property_owner :: "user \<Rightarrow> bool" where
  "is_property_owner u = (role u = PROPERTY_OWNER)"

definition is_buyer_renter :: "user \<Rightarrow> bool" where
  "is_buyer_renter u = (role u = BUYER_RENTER)"

datatype kyc_status = KYC_PENDING | KYC_APPROVED | KYC_REJECTED

record kyc_verification =
  kyc_pk :: pk
  kyc_user :: pk
  kyc_status :: kyc_status
  kyc_verified_at :: "timestamp option"
  kyc_verified_by :: "pk option"
  kyc_rejection_reason :: "string option"

section \<open>permissions.py\<close>

text \<open>
  \<open>request.user\<close> is \<open>None\<close> for the anonymous user and \<open>Some u\<close> for an
  authenticated one; each class below is its \<^verbatim>\<open>has_permission\<close>.
\<close>

definition IsAuthenticated :: "user option \<Rightarrow> bool" where
  "IsAuthenticated ru = (case ru of None \<Rightarrow> False | Some u \<Rightarrow> True)"

definition IsAdmin :: "user option \<Rightarrow> bool" where
  "IsAdmin ru = (case ru of None \<Rightarrow> False | Some u \<Rightarrow> is_admin u)"

definition IsGovernmentAgency :: "user option \<Rightarrow> bool" where
  "IsGovernmentAgency ru = (case ru of None \<Rightarrow> False | Some u \<Rightarrow> is_government u)"

definition IsVerifiedUser :: "user option \<Rightarrow> bool" where
  "IsVerifiedUser ru = (case ru of None \<Rightarrow> False | Some u \<Rightarrow> is_verified u)"

definition IsPropertyOwnerOrRealEstateFirm :: "user option \<Rightarrow> bool" where
  "IsPropertyOwnerOrRealEstateFirm ru =
     (case ru of None \<Rightarrow> False | Some u \<Rightarrow> is_property_owner u \<or> is_real_estate_firm u)"

text \<open>
  A request that fails the view's permission check is answered 401 when it carries no
  authenticated user and 403 otherwise (\<^verbatim>\<open>test_create_property_unauthenticated\<close>
  expects the 401).
\<close>

definition permission_denied :: "user option \<Rightarrow> 'a response" where
  "permission_denied ru = (case ru of None \<Rightarrow> HTTP_401_UNAUTHORIZED | Some u \<Rightarrow> HTTP_403_FORBIDDEN)"

section \<open>properties/models.py\<close>

datatype verification_status = Property_PENDING | Property_VERIFIED | Property_REJECTED

record property =
  property_pk :: pk
  owner :: pk
  verification_status :: verification_status
  rejection_reason :: "string option"
  verified_by :: "pk option"
  verified_at :: "timestamp option"
  is_active :: bool

section \<open>leads/models.py\<close>

text \<open>
  A lead's status is the stored string; \<open>STATUS_CHOICES\<close> pairs each admissible value
  with its label.
\<close>

definition Lead_NEW :: string where "Lead_NEW = ''new''"
definition Lead_CONTACTED :: string where "Lead_CONTACTED = ''contacted''"
definition Lead_QUALIFIED :: string where "Lead_QUALIFIED = ''qualified''"
definition Lead_LOST :: string where "Lead_LOST = ''lost''"
definition Lead_CONVERTED :: string where "Lead_CONVERTED = ''converted''"

definition Lead_STATUS_CHOICES :: "(string \<times> string) list" where
  "Lead_STATUS_CHOICES =
     [(Lead_NEW, ''New''), (Lead_CONTACTED, ''Contacted''), (Lead_QUALIFIED, ''Qualified''),
      (Lead_LOST, ''Lost''), (Lead_CONVERTED, ''Converted'')]"

record lead =
  lead_pk :: pk
  lead_user :: pk
  lead_property :: pk
  lead_status :: string
  lead_message :: string

section \<open>payments/models.py\<close>

datatype payment_status = Payment_PENDING | Payment_COMPLETED | Payment_FAILED | Payment_REFUNDED

record payment =
  payment_pk :: pk
  payment_property :: pk
  payer :: pk
  receiver :: pk
  payment_amount :: int
  payment_status :: payment_status
  completed_at :: "timestamp option"

text \<open>
  \<open>Payment.save\<close>: the completion time is stamped when the status is COMPLETED and no
  time is recorded yet; then the row is written.
\<close>

definition Payment_save_hook :: "timestamp \<Rightarrow> payment \<Rightarrow> payment" where
  "Payment_save_hook now p =
     (if payment_status p = Payment_COMPLETED \<and> completed_at p = None
      then p\<lparr>completed_at := Some now\<rparr> else p)"

record transaction =
  transaction_payment :: pk
  transaction_type :: string
  transaction_amount :: int
  transaction_status :: string
  gateway_response :: string

datatype invoice_status = Invoice_PENDING | Invoice_PAID | Invoice_OVERDUE | Invoice_CANCELLED

record invoice =
  invoice_pk :: pk
  invoice_property :: pk
  invoice_user :: pk
  invoice_payment :: "pk option"
  invoice_amount :: int
  invoice_status :: invoice_status
  due_date :: date

definition is_overdue :: "timestamp \<Rightarrow> invoice \<Rightarrow> bool" where
  "is_overdue now i = (invoice_status i = Invoice_PENDING \<and> due_date i < date_of now)"

text \<open>\<open>Invoice.save\<close> before the row is written.\<close>

definition Invoice_save_hook :: "timestamp \<Rightarrow> invoice \<Rightarrow> invoice" where
  "Invoice_save_hook now i =
     (if is_overdue now i \<and> invoice_status i = Invoice_PENDING
      then i\<lparr>invoice_status := Invoice_OVERDUE\<rparr> else i)"

section \<open>The database\<close>

record db =
  users :: "user list"
  kyc_verifications :: "kyc_verification list"
  properties :: "property list"
  leads :: "lead list"
  payments :: "payment list"
  transactions :: "transaction list"
  invoices :: "invoice list"

definition User_save :: "user \<Rightarrow> db \<Rightarrow> db" where
  "User_save u d = d\<lparr>users := objects_save user_pk u (users d)\<rparr>"

definition KYCVerification_save :: "kyc_verification \<Rightarrow> db \<Rightarrow> db" where
  "KYCVerification_save k d =
     d\<lparr>kyc_verifications := objects_save kyc_pk k (kyc_verifications d)\<rparr>"

definition Property_save :: "property \<Rightarrow> db \<Rightarrow> db" where
  "Property_save p d = d\<lparr>properties := objects_save property_pk p (properties d)\<rparr>"

definition Lead_save :: "lead \<Rightarrow> db \<Rightarrow> db" where
  "Lead_save l d = d\<lparr>leads := objects_save lead_pk l (leads d)\<rparr>"

text \<open>
  \<open>Payment.save\<close> and \<open>Invoice.save\<close> change the instance in memory before they
  write it, so both return the instance as it is afterwards together with the database.
\<close>

definition Payment_save :: "timestamp \<Rightarrow> payment \<Rightarrow> db \<Rightarrow> payment \<times> db" where
  "Payment_save now p d =
     (let p' = Payment_save_hook now p
      in (p', d\<lparr>payments := objects_save payment_pk p' (payments d)\<rparr>))"

definition Invoice_save :: "timestamp \<Rightarrow> invoice \<Rightarrow> db \<Rightarrow> invoice \<times> db" where
  "Invoice_save now i d =
     (let i' = Invoice_save_hook now i
      in (i', d\<lparr>invoices := objects_save invoice_pk i' (invoices d)\<rparr>))"

section \<open>Serializer fields of the framework\<close>

text \<open>
  A request value for a text field is a string, and a character is a code point below
  256. \<open>isspace\<close> is Python's \<^verbatim>\<open>str.isspace\<close> on those code points and \<open>strip\<close> is
  \<^verbatim>\<open>str.strip()\<close>.
\<close>

definition isspace :: "char \<Rightarrow> bool" where
  "isspace c = (of_char c \<in> set [9, 10, 11, 12, 13, 28, 29, 30, 31, 32, 133, 160 :: nat])"

definition strip :: "string \<Rightarrow> string" where
  "strip s = rev (dropWhile isspace (rev (dropWhile isspace s)))"

text \<open>
  The framework's \<open>CharField\<close> with its default \<^verbatim>\<open>trim_whitespace=True\<close>, as
  \<open>is_valid\<close> runs it on a supplied string. A value that is empty once it is stripped
  is refused unless the field allows blanks, and is then the empty string. Any other
  value is stripped, and refused when it is longer than \<open>max_length\<close> or holds a null
  character. The result is \<open>None\<close> for a refused value and the validated string
  otherwise.
\<close>

record CharField =
  allow_blank :: bool
  max_length :: "nat option"

definition CharField_run_validation :: "CharField \<Rightarrow> string \<Rightarrow> string option" where
  "CharField_run_validation f data =
     (if strip data = [] then (if allow_blank f then Some [] else None)
      else if (case max_length f of None \<Rightarrow> False | Some n \<Rightarrow> n < length (strip data))
        then None
      else if CHR 0x00 \<in> set (strip data) then None
      else Some (strip data))"

text \<open>
  A field of a request: \<open>None\<close> when the request has no such key. For an optional
  field (\<^verbatim>\<open>required=False\<close>) the outcome is \<open>None\<close> when the value is refused,
  \<open>Some None\<close> when the key is absent and \<open>Some (Some v)\<close> for the validated value
  \<open>v\<close>. A required field refuses a request without the key.
\<close>

definition run_optional :: "CharField \<Rightarrow> string option \<Rightarrow> string option option" where
  "run_optional f v =
     (case v of
        None \<Rightarrow> Some None
      | Some data \<Rightarrow>
          (case CharField_run_validation f data of None \<Rightarrow> None | Some x \<Rightarrow> Some (Some x)))"

definition run_required :: "CharField \<Rightarrow> string option \<Rightarrow> string option" where
  "run_required f v =
     (case v of None \<Rightarrow> None | Some data \<Rightarrow> CharField_run_validation f data)"

section \<open>properties/serializers.py\<close>

text \<open>
  Both verification serializers declare
  \<^verbatim>\<open>rejection_reason = serializers.CharField(required=False, allow_blank=True)\<close>.
\<close>

definition rejection_reason_field :: CharField where
  "rejection_reason_field = \<lparr>allow_blank = True, max_length = None\<rparr>"

text \<open>
  The data of a verification request: a status, when present, is one of the choices,
  and a rejection reason, when present, is a string. A key that the request left out
  is \<open>None\<close>, which is also what \<^verbatim>\<open>attrs.get\<close> returns for it. \<open>py_not\<close> is Python's
  \<^verbatim>\<open>not\<close> on such a value: true of a missing and of an empty string.
\<close>

definition py_not :: "string option \<Rightarrow> bool" where
  "py_not v = (case v of None \<Rightarrow> True | Some s \<Rightarrow> s = [])"

record verification_attrs =
  attrs_verification_status :: "verification_status option"
  attrs_rejection_reason :: "string option"

definition PropertyVerificationSerializer_validate ::
  "verification_attrs \<Rightarrow> string + verification_attrs" where
  "PropertyVerificationSerializer_validate attrs =
     (if attrs_verification_status attrs = Some Property_REJECTED
         \<and> py_not (attrs_rejection_reason attrs)
      then Inl ''rejection_reason''
      else Inr attrs)"

text \<open>
  \<open>is_valid\<close>: the field check of the reason, then \<open>validate\<close> on the validated
  attributes. Either refusal is reported under the key \<open>rejection_reason\<close>.
\<close>

definition PropertyVerificationSerializer_is_valid ::
  "verification_attrs \<Rightarrow> string + verification_attrs" where
  "PropertyVerificationSerializer_is_valid data =
     (case run_optional rejection_reason_field (attrs_rejection_reason data) of
        None \<Rightarrow> Inl ''rejection_reason''
      | Some reason \<Rightarrow>
          PropertyVerificationSerializer_validate (data\<lparr>attrs_rejection_reason := reason\<rparr>))"

text \<open>
  \<open>PropertyVerificationSerializer.update\<close>. With no status among the attributes the
  instance's status becomes \<^verbatim>\<open>None\<close> and the write violates the column's NOT NULL
  constraint. Assigning the anonymous user to \<open>verified_by\<close> is a \<^verbatim>\<open>ValueError\<close>.
\<close>

definition PropertyVerificationSerializer_update ::
  "timestamp \<Rightarrow> user option \<Rightarrow> property \<Rightarrow> verification_attrs \<Rightarrow> db \<Rightarrow> exn + property \<times> db" where
  "PropertyVerificationSerializer_update now request_user instance validated_data d =
     (case attrs_verification_status validated_data of
        None \<Rightarrow> Inl IntegrityError
      | Some s \<Rightarrow>
          (let i1 = instance\<lparr>verification_status := s\<rparr> in
           if s = Property_REJECTED then
             (let i2 = i1\<lparr>rejection_reason := attrs_rejection_reason validated_data\<rparr>
              in Inr (i2, Property_save i2 d))
           else if s = Property_VERIFIED then
             (case request_user of
                None \<Rightarrow> Inl ValueError
              | Some u \<Rightarrow>
                  (let i2 = i1\<lparr>verified_by := Some (user_pk u), verified_at := Some now,
                               rejection_reason := None\<rparr>
                   in Inr (i2, Property_save i2 d)))
           else Inr (i1, Property_save i1 d)))"

section \<open>properties/views.py\<close>

text \<open>
  \<open>PropertyViewSet.get_permissions\<close>, as the conjunction of the \<^verbatim>\<open>has_permission\<close>
  checks of the classes it returns for an action. \<open>IsOwnerOrAdmin\<close> only defines an
  object-level check, so at this level it lets every request through.
\<close>

definition PropertyViewSet_get_permissions :: "string \<Rightarrow> user option \<Rightarrow> bool" where
  "PropertyViewSet_get_permissions action ru =
     (if action \<in> set [''create''] then IsPropertyOwnerOrRealEstateFirm ru \<and> IsVerifiedUser ru
      else if action \<in> set [''update'', ''partial_update'', ''destroy''] then True
      else if action = ''verify'' then IsAdmin ru \<or> IsGovernmentAgency ru
      else if action \<in> set [''list'', ''retrieve''] then True
      else IsVerifiedUser ru)"

definition PropertyViewSet_queryset :: "db \<Rightarrow> property list" where
  "PropertyViewSet_queryset d = filter is_active (properties d)"

text \<open>
  A chain of \<^verbatim>\<open>queryset.filter(...)\<close> calls, each given by the predicate on rows it
  denotes. The filter backends of the list route and the optional query parameters of
  \<open>search\<close> are such chains; ordering and pagination are left out, so a result below is
  the list of all rows a request can be served from.
\<close>

definition filter_queryset :: "('a \<Rightarrow> bool) list \<Rightarrow> 'a list \<Rightarrow> 'a list" where
  "filter_queryset fs rows = fold filter fs rows"

definition PropertyViewSet_list ::
  "db \<Rightarrow> user option \<Rightarrow> (property \<Rightarrow> bool) list \<Rightarrow> property list response" where
  "PropertyViewSet_list d ru fs =
     (if \<not> PropertyViewSet_get_permissions ''list'' ru then permission_denied ru
      else HTTP_200_OK (filter_queryset fs (PropertyViewSet_queryset d)))"

definition PropertyViewSet_retrieve ::
  "db \<Rightarrow> user option \<Rightarrow> (property \<Rightarrow> bool) list \<Rightarrow> pk \<Rightarrow> property response" where
  "PropertyViewSet_retrieve d ru fs k =
     (if \<not> PropertyViewSet_get_permissions ''retrieve'' ru then permission_denied ru
      else case objects_get property_pk (filter_queryset fs (PropertyViewSet_queryset d)) k of
             None \<Rightarrow> HTTP_404_NOT_FOUND
           | Some p \<Rightarrow> HTTP_200_OK p)"

text \<open>
  The \<open>verify\<close> action, for a request without query-string filters. The response data
  are the serializer's two fields.
\<close>

definition PropertyViewSet_verify ::
  "timestamp \<Rightarrow> db \<Rightarrow> user option \<Rightarrow> pk \<Rightarrow> verification_attrs
     \<Rightarrow> (verification_status \<times> string option) response \<times> db" where
  "PropertyViewSet_verify now d ru k data =
     (if \<not> PropertyViewSet_get_permissions ''verify'' ru then (permission_denied ru, d)
      else case objects_get property_pk (PropertyViewSet_queryset d) k of
             None \<Rightarrow> (HTTP_404_NOT_FOUND, d)
           | Some property_instance \<Rightarrow>
               (case PropertyVerificationSerializer_is_valid data of
                  Inl e \<Rightarrow> (HTTP_400_BAD_REQUEST e, d)
                | Inr attrs \<Rightarrow>
                    (case PropertyVerificationSerializer_update now ru property_instance attrs d of
                       Inl e \<Rightarrow> (Unhandled e, d)
                     | Inr (i, d') \<Rightarrow>
                         (HTTP_200_OK (verification_status i, rejection_reason i), d'))))"

definition PropertyViewSet_my_properties :: "db \<Rightarrow> user option \<Rightarrow> property list response" where
  "PropertyViewSet_my_properties d ru =
     (if \<not> PropertyViewSet_get_permissions ''my_properties'' ru then permission_denied ru
      else case ru of
             None \<Rightarrow> Unhandled TypeError
           | Some u \<Rightarrow> HTTP_200_OK (filter (\<lambda>p. owner p = user_pk u) (properties d)))"

definition PropertyViewSet_pending_verification ::
  "db \<Rightarrow> user option \<Rightarrow> property list response" where
  "PropertyViewSet_pending_verification d ru =
     (if \<not> PropertyViewSet_get_permissions ''pending_verification'' ru then permission_denied ru
      else if \<not> (IsAdmin ru \<or> IsGovernmentAgency ru) then HTTP_403_FORBIDDEN
      else HTTP_200_OK (filter (\<lambda>p. verification_status p = Property_PENDING) (properties d)))"

definition PropertyViewSet_search ::
  "db \<Rightarrow> user option \<Rightarrow> (property \<Rightarrow> bool) list \<Rightarrow> property list response" where
  "PropertyViewSet_search d ru fs =
     (if \<not> PropertyViewSet_get_permissions ''search'' ru then permission_denied ru
      else HTTP_200_OK
             (filter_queryset fs
                (filter (\<lambda>p. is_active p \<and> verification_status p = Property_VERIFIED)
                   (properties d))))"

section \<open>users/serializers.py\<close>

text \<open>
  The data of a registration request, for a request that sends none of the optional
  profile keys (\<open>phone_number\<close>, \<open>address\<close>, \<open>profile_picture\<close>). A role, when
  present, is one of the choices.
\<close>

record user_attrs =
  attrs_email :: "string option"
  attrs_password :: "string option"
  attrs_password_confirmation :: "string option"
  attrs_first_name :: "string option"
  attrs_last_name :: "string option"
  attrs_role :: "role option"

definition UserSerializer_validate :: "user_attrs \<Rightarrow> string + user_attrs" where
  "UserSerializer_validate attrs =
     (if attrs_password attrs \<noteq> attrs_password_confirmation attrs then Inl ''password''
      else Inr attrs)"

text \<open>
  The fields of \<open>UserSerializer\<close>. \<open>email\<close> comes from the model's unique
  \<open>EmailField\<close> (254 characters at most), \<open>first_name\<close> and \<open>last_name\<close> from the
  optional name columns of \<open>AbstractUser\<close> (150 characters at most, blank allowed);
  \<open>password\<close> and \<open>password_confirmation\<close> are declared as required \<open>CharField\<close>s.
\<close>

definition email_field :: CharField where
  "email_field = \<lparr>allow_blank = False, max_length = Some 254\<rparr>"

definition name_field :: CharField where
  "name_field = \<lparr>allow_blank = True, max_length = Some 150\<rparr>"

definition password_field :: CharField where
  "password_field = \<lparr>allow_blank = False, max_length = None\<rparr>"

text \<open>
  \<open>is_valid\<close>: the field checks in the order of \<open>Meta.fields\<close>, the first refused
  field naming the 400 response, then \<open>validate\<close> on the validated attributes. Beyond
  the \<open>CharField\<close> checks the address has to pass Django's \<open>EmailValidator\<close>, which is
  not part of the repository and is the parameter \<open>valid_email\<close> here, and must not be
  the address of a stored user; two addresses are the same when they are the same
  string.
\<close>

definition UserSerializer_is_valid ::
  "(string \<Rightarrow> bool) \<Rightarrow> db \<Rightarrow> user_attrs \<Rightarrow> string + user_attrs" where
  "UserSerializer_is_valid valid_email d data =
     (case run_required email_field (attrs_email data) of
        None \<Rightarrow> Inl ''email''
      | Some e \<Rightarrow>
          if \<not> valid_email e \<or> e \<in> set (map email (users d)) then Inl ''email''
          else
            (case run_optional name_field (attrs_first_name data) of
               None \<Rightarrow> Inl ''first_name''
             | Some first_arg \<Rightarrow>
                 (case run_optional name_field (attrs_last_name data) of
                    None \<Rightarrow> Inl ''last_name''
                  | Some last_arg \<Rightarrow>
                      (case run_required password_field (attrs_password data) of
                         None \<Rightarrow> Inl ''password''
                       | Some pw \<Rightarrow>
                           (case run_required password_field
                                   (attrs_password_confirmation data) of
                              None \<Rightarrow> Inl ''password_confirmation''
                            | Some pc \<Rightarrow>
                                UserSerializer_validate
                                  \<lparr>attrs_email = Some e, attrs_password = Some pw,
                                   attrs_password_confirmation = Some pc,
                                   attrs_first_name = first_arg, attrs_last_name = last_arg,
                                   attrs_role = attrs_role data\<rparr>)))))"

definition dict_get :: "'a option \<Rightarrow> 'a \<Rightarrow> 'a" where
  "dict_get v dflt = (case v of None \<Rightarrow> dflt | Some x \<Rightarrow> x)"

text \<open>
  \<open>UserManager.create_user\<close> through \<open>_create_user\<close>, called with the keyword
  arguments of \<open>UserSerializer.create\<close>. \<open>normalize_email\<close> is the framework's and is a
  parameter here. \<open>is_staff\<close> and \<open>is_superuser\<close> get their \<^verbatim>\<open>setdefault\<close> value,
  \<open>is_verified\<close> the column default. The insert fails on the unique email column when
  the address is taken.
\<close>

definition create_user ::
  "(string \<Rightarrow> string) \<Rightarrow> db \<Rightarrow> string \<Rightarrow> string \<Rightarrow> string \<Rightarrow> role \<Rightarrow> exn + user \<times> db" where
  "create_user normalize_email d email_arg first_arg last_arg r =
     (if email_arg = [] then Inl ValueError
      else
        (let u = \<lparr>user_pk = fresh_pk user_pk (users d), email = normalize_email email_arg,
                  first_name = first_arg, last_name = last_arg, role = r, is_verified = False,
                  is_staff = False, is_superuser = False\<rparr>
         in if email u \<in> set (map email (users d)) then Inl IntegrityError
            else Inr (u, d\<lparr>users := users d @ [u]\<rparr>)))"

text \<open>
  \<open>UserSerializer.create\<close>; \<^verbatim>\<open>validated_data['email']\<close> is a \<^verbatim>\<open>KeyError\<close> without
  the key.
\<close>

definition UserSerializer_create ::
  "(string \<Rightarrow> string) \<Rightarrow> db \<Rightarrow> user_attrs \<Rightarrow> exn + user \<times> db" where
  "UserSerializer_create normalize_email d validated_data =
     (case attrs_email validated_data of
        None \<Rightarrow> Inl KeyError
      | Some e \<Rightarrow>
          (case attrs_password validated_data of
             None \<Rightarrow> Inl KeyError
           | Some pw \<Rightarrow>
               create_user normalize_email d e
                 (dict_get (attrs_first_name validated_data) [])
                 (dict_get (attrs_last_name validated_data) [])
                 (dict_get (attrs_role validated_data) BUYER_RENTER)))"

text \<open>
  \<open>UserUpdateSerializer\<close> has no method of its own: its fields are checked, and the
  inherited update assigns each of them that the request supplied and saves. The
  fields are \<open>first_name\<close>, \<open>last_name\<close> and the profile columns left out of \<open>user\<close>.
\<close>

record user_update_attrs =
  upd_first_name :: "string option"
  upd_last_name :: "string option"

definition UserUpdateSerializer_is_valid :: "user_update_attrs \<Rightarrow> string + user_update_attrs" where
  "UserUpdateSerializer_is_valid data =
     (case run_optional name_field (upd_first_name data) of
        None \<Rightarrow> Inl ''first_name''
      | Some first_arg \<Rightarrow>
          (case run_optional name_field (upd_last_name data) of
             None \<Rightarrow> Inl ''last_name''
           | Some last_arg \<Rightarrow> Inr \<lparr>upd_first_name = first_arg, upd_last_name = last_arg\<rparr>))"

definition UserUpdateSerializer_update :: "user \<Rightarrow> user_update_attrs \<Rightarrow> db \<Rightarrow> user \<times> db" where
  "UserUpdateSerializer_update instance validated_data d =
     (let i1 = (case upd_first_name validated_data of
                  None \<Rightarrow> instance | Some v \<Rightarrow> instance\<lparr>first_name := v\<rparr>);
          i2 = (case upd_last_name validated_data of
                  None \<Rightarrow> i1 | Some v \<Rightarrow> i1\<lparr>last_name := v\<rparr>)
      in (i2, User_save i2 d))"

record kyc_attrs =
  attrs_status :: "kyc_status option"
  attrs_kyc_rejection_reason :: "string option"

definition KYCVerificationUpdateSerializer_validate :: "kyc_attrs \<Rightarrow> string + kyc_attrs" where
  "KYCVerificationUpdateSerializer_validate attrs =
     (if attrs_status attrs = Some KYC_REJECTED \<and> py_not (attrs_kyc_rejection_reason attrs)
      then Inl ''rejection_reason''
      else Inr attrs)"

definition KYCVerificationUpdateSerializer_is_valid :: "kyc_attrs \<Rightarrow> string + kyc_attrs" where
  "KYCVerificationUpdateSerializer_is_valid data =
     (case run_optional rejection_reason_field (attrs_kyc_rejection_reason data) of
        None \<Rightarrow> Inl ''rejection_reason''
      | Some reason \<Rightarrow>
          KYCVerificationUpdateSerializer_validate (data\<lparr>attrs_kyc_rejection_reason := reason\<rparr>))"

text \<open>
  The framework's serializer field, as far as \<open>update\<close> below uses it: a field
  constructed without a \<^verbatim>\<open>default\<close> argument has none, and \<^verbatim>\<open>get_default()\<close> of a
  field that has none raises \<^verbatim>\<open>SkipField\<close>.
\<close>

record 'a Field =
  field_default :: "'a option"

definition DateTimeField :: "timestamp Field" where
  "DateTimeField = \<lparr>field_default = None\<rparr>"

definition get_default :: "'a Field \<Rightarrow> exn + 'a" where
  "get_default f = (case field_default f of None \<Rightarrow> Inl SkipField | Some v \<Rightarrow> Inr v)"

text \<open>
  \<open>KYCVerificationUpdateSerializer.update\<close>. The assignments to \<open>user\<close> and
  \<open>instance\<close> are in memory; the two saves at the end write them. The value for
  \<open>verified_at\<close> is the source's expression
  \<^verbatim>\<open>DateTimeField().to_representation(DateTimeField().to_internal_value(
  DateTimeField().to_representation(DateTimeField().get_default())))\<close>, whose innermost
  call is evaluated first; formatting a time and parsing it back is the identity on
  \<open>timestamp\<close>. An exception leaves before either save. With no status among the
  attributes the saves run and the second one violates the NOT NULL constraint of
  \<open>status\<close>; the user row it wrote before holds the values it was loaded with.
\<close>

definition KYCVerificationUpdateSerializer_update ::
  "user option \<Rightarrow> kyc_verification \<Rightarrow> kyc_attrs \<Rightarrow> db \<Rightarrow> exn + kyc_verification \<times> db" where
  "KYCVerificationUpdateSerializer_update request_user instance validated_data d =
     (case objects_get user_pk (users d) (kyc_user instance) of
        None \<Rightarrow> Inl DoesNotExist
      | Some usr \<Rightarrow>
          (case attrs_status validated_data of
             None \<Rightarrow> Inl IntegrityError
           | Some status \<Rightarrow>
               (let i1 = instance\<lparr>kyc_status := status\<rparr> in
                if status = KYC_REJECTED then
                  (let i2 = i1\<lparr>kyc_rejection_reason := attrs_kyc_rejection_reason validated_data\<rparr>;
                       u2 = usr\<lparr>is_verified := False\<rparr>
                   in Inr (i2, KYCVerification_save i2 (User_save u2 d)))
                else if status = KYC_APPROVED then
                  (let u2 = usr\<lparr>is_verified := True\<rparr> in
                   case request_user of
                     None \<Rightarrow> Inl ValueError
                   | Some official \<Rightarrow>
                       (case get_default DateTimeField of
                          Inl e \<Rightarrow> Inl e
                        | Inr t \<Rightarrow>
                            (let i2 = i1\<lparr>kyc_verified_by := Some (user_pk official),
                                         kyc_verified_at := Some t\<rparr>
                             in Inr (i2, KYCVerification_save i2 (User_save u2 d)))))
                else Inr (i1, KYCVerification_save i1 (User_save usr d)))))"

section \<open>users/views.py\<close>

definition AllowAny :: "user option \<Rightarrow> bool" where
  "AllowAny ru = True"

definition UserViewSet_get_permissions :: "string \<Rightarrow> user option \<Rightarrow> bool" where
  "UserViewSet_get_permissions action ru =
     (if action = ''create'' then AllowAny ru
      else if action \<in> set [''update'', ''partial_update'', ''change_password'']
        then IsAuthenticated ru
      else if action \<in> set [''list'', ''retrieve'', ''destroy''] then IsAdmin ru
      else IsAuthenticated ru)"

text \<open>The inherited \<open>create\<close> action with \<open>UserSerializer\<close>.\<close>

definition UserViewSet_create ::
  "(string \<Rightarrow> bool) \<Rightarrow> (string \<Rightarrow> string) \<Rightarrow> db \<Rightarrow> user option \<Rightarrow> user_attrs
     \<Rightarrow> user response \<times> db" where
  "UserViewSet_create valid_email normalize_email d ru data =
     (if \<not> UserViewSet_get_permissions ''create'' ru then (permission_denied ru, d)
      else case UserSerializer_is_valid valid_email d data of
             Inl e \<Rightarrow> (HTTP_400_BAD_REQUEST e, d)
           | Inr attrs \<Rightarrow>
               (case UserSerializer_create normalize_email d attrs of
                  Inl e \<Rightarrow> (Unhandled e, d)
                | Inr (u, d') \<Rightarrow> (HTTP_201_CREATED u, d')))"

text \<open>
  The inherited \<open>update\<close> and \<open>partial_update\<close> actions use \<open>UserUpdateSerializer\<close>
  on the unrestricted queryset \<^verbatim>\<open>User.objects.all()\<close>.
\<close>

definition UserViewSet_update ::
  "string \<Rightarrow> db \<Rightarrow> user option \<Rightarrow> pk \<Rightarrow> user_update_attrs \<Rightarrow> user response \<times> db" where
  "UserViewSet_update action d ru k data =
     (if \<not> UserViewSet_get_permissions action ru then (permission_denied ru, d)
      else case objects_get user_pk (users d) k of
             None \<Rightarrow> (HTTP_404_NOT_FOUND, d)
           | Some instance \<Rightarrow>
               (case UserUpdateSerializer_is_valid data of
                  Inl e \<Rightarrow> (HTTP_400_BAD_REQUEST e, d)
                | Inr attrs \<Rightarrow>
                    (case UserUpdateSerializer_update instance attrs d of
                       (u, d') \<Rightarrow> (HTTP_200_OK u, d'))))"

definition KYCVerificationViewSet_get_permissions :: "string \<Rightarrow> user option \<Rightarrow> bool" where
  "KYCVerificationViewSet_get_permissions action ru =
     (if action \<in> set [''update'', ''partial_update''] then IsAdmin ru \<or> IsGovernmentAgency ru
      else if action = ''list'' then IsAdmin ru \<or> IsGovernmentAgency ru
      else IsAuthenticated ru)"

definition KYCVerificationViewSet_get_queryset :: "db \<Rightarrow> user \<Rightarrow> kyc_verification list" where
  "KYCVerificationViewSet_get_queryset d u =
     (if is_admin u \<or> is_government u then kyc_verifications d
      else filter (\<lambda>k. kyc_user k = user_pk u) (kyc_verifications d))"

text \<open>
  The inherited \<open>update\<close> and \<open>partial_update\<close> actions with
  \<open>KYCVerificationUpdateSerializer\<close>, whose two fields are both optional; \<open>action\<close> is
  one of the two names. The response data are the serializer's two fields.
\<close>

definition KYCVerificationViewSet_update ::
  "string \<Rightarrow> db \<Rightarrow> user option \<Rightarrow> pk \<Rightarrow> kyc_attrs \<Rightarrow> (kyc_status \<times> string option) response \<times> db" where
  "KYCVerificationViewSet_update action d ru k data =
     (if \<not> KYCVerificationViewSet_get_permissions action ru then (permission_denied ru, d)
      else case ru of
             None \<Rightarrow> (permission_denied ru, d)
           | Some u \<Rightarrow>
               (case objects_get kyc_pk (KYCVerificationViewSet_get_queryset d u) k of
                  None \<Rightarrow> (HTTP_404_NOT_FOUND, d)
                | Some instance \<Rightarrow>
                    (case KYCVerificationUpdateSerializer_is_valid data of
                       Inl e \<Rightarrow> (HTTP_400_BAD_REQUEST e, d)
                     | Inr attrs \<Rightarrow>
                         (case KYCVerificationUpdateSerializer_update ru instance attrs d of
                            Inl e \<Rightarrow> (Unhandled e, d)
                          | Inr (i, d') \<Rightarrow>
                              (HTTP_200_OK (kyc_status i, kyc_rejection_reason i), d')))))"

section \<open>leads/views.py\<close>

text \<open>
  \<open>LeadViewSet\<close> declares \<^verbatim>\<open>permission_classes = [IsAuthenticated]\<close> for all of its
  actions. \<open>property__owner=user\<close> joins the lead's property.
\<close>

definition LeadViewSet_get_queryset :: "db \<Rightarrow> user \<Rightarrow> lead list" where
  "LeadViewSet_get_queryset d u =
     (if is_property_owner u \<or> is_real_estate_firm u then
        filter (\<lambda>l. case objects_get property_pk (properties d) (lead_property l) of
                       None \<Rightarrow> False
                     | Some p \<Rightarrow> owner p = user_pk u) (leads d)
      else filter (\<lambda>l. lead_user l = user_pk u) (leads d))"

text \<open>
  The \<open>update_status\<close> action; \<open>status_value\<close> is \<^verbatim>\<open>request.data.get('status')\<close>,
  a string or nothing.
\<close>

definition LeadViewSet_update_status ::
  "db \<Rightarrow> user option \<Rightarrow> pk \<Rightarrow> string option \<Rightarrow> lead response \<times> db" where
  "LeadViewSet_update_status d ru k status_value =
     (if \<not> IsAuthenticated ru then (permission_denied ru, d)
      else case ru of
        None \<Rightarrow> (permission_denied ru, d)
      | Some u \<Rightarrow>
          (case objects_get lead_pk (LeadViewSet_get_queryset d u) k of
             None \<Rightarrow> (HTTP_404_NOT_FOUND, d)
           | Some l \<Rightarrow>
               if py_not status_value
                  \<or> dict_get status_value [] \<notin> set (map fst Lead_STATUS_CHOICES)
               then (HTTP_400_BAD_REQUEST ''detail'', d)
               else
                 (case objects_get property_pk (properties d) (lead_property l) of
                    None \<Rightarrow> (Unhandled DoesNotExist, d)
                  | Some p \<Rightarrow>
                      if user_pk u \<noteq> owner p \<and> \<not> is_admin u then (HTTP_403_FORBIDDEN, d)
                      else
                        (let l' = l\<lparr>lead_status := dict_get status_value []\<rparr>
                         in (HTTP_200_OK l', Lead_save l' d)))))"

text \<open>
  The \<open>partial_update\<close> action that \<open>LeadViewSet\<close> inherits, with \<open>LeadSerializer\<close>
  (leads/serializers.py): of the model's columns the serializer makes \<open>user\<close> read-only
  and leaves \<open>property\<close>, \<open>status\<close> and \<open>message\<close> writable. The field checks
  refuse a property that does not exist, a status outside the choices and a message
  that the text field of the column refuses (blank once it is stripped, or with a null
  character); the first field refused names the 400 response. The inherited update
  assigns the validated fields that were supplied and saves.
\<close>

record lead_attrs =
  attrs_property :: "pk option"
  attrs_lead_status :: "string option"
  attrs_message :: "string option"

definition message_field :: CharField where
  "message_field = \<lparr>allow_blank = False, max_length = None\<rparr>"

definition LeadSerializer_is_valid :: "db \<Rightarrow> lead_attrs \<Rightarrow> string + lead_attrs" where
  "LeadSerializer_is_valid d data =
     (if (case attrs_property data of
            None \<Rightarrow> False
          | Some k \<Rightarrow> objects_get property_pk (properties d) k = None) then Inl ''property''
      else if (case attrs_lead_status data of
                 None \<Rightarrow> False
               | Some v \<Rightarrow> v \<notin> set (map fst Lead_STATUS_CHOICES)) then Inl ''status''
      else case run_optional message_field (attrs_message data) of
             None \<Rightarrow> Inl ''message''
           | Some m \<Rightarrow> Inr (data\<lparr>attrs_message := m\<rparr>))"

definition LeadSerializer_update :: "lead \<Rightarrow> lead_attrs \<Rightarrow> db \<Rightarrow> lead \<times> db" where
  "LeadSerializer_update instance validated_data d =
     (let i1 = (case attrs_property validated_data of
                  None \<Rightarrow> instance | Some v \<Rightarrow> instance\<lparr>lead_property := v\<rparr>);
          i2 = (case attrs_lead_status validated_data of
                  None \<Rightarrow> i1 | Some v \<Rightarrow> i1\<lparr>lead_status := v\<rparr>);
          i3 = (case attrs_message validated_data of
                  None \<Rightarrow> i2 | Some v \<Rightarrow> i2\<lparr>lead_message := v\<rparr>)
      in (i3, Lead_save i3 d))"

definition LeadViewSet_partial_update ::
  "db \<Rightarrow> user option \<Rightarrow> pk \<Rightarrow> lead_attrs \<Rightarrow> lead response \<times> db" where
  "LeadViewSet_partial_update d ru k data =
     (if \<not> IsAuthenticated ru then (permission_denied ru, d)
      else case ru of
        None \<Rightarrow> (permission_denied ru, d)
      | Some u \<Rightarrow>
          (case objects_get lead_pk (LeadViewSet_get_queryset d u) k of
             None \<Rightarrow> (HTTP_404_NOT_FOUND, d)
           | Some instance \<Rightarrow>
               (case LeadSerializer_is_valid d data of
                  Inl e \<Rightarrow> (HTTP_400_BAD_REQUEST e, d)
                | Inr attrs \<Rightarrow>
                    (case LeadSerializer_update instance attrs d of
                       (l', d') \<Rightarrow> (HTTP_200_OK l', d')))))"

section \<open>payments/views.py\<close>

definition PaymentViewSet_get_permissions :: "string \<Rightarrow> user option \<Rightarrow> bool" where
  "PaymentViewSet_get_permissions action ru =
     (if action = ''create'' then IsAuthenticated ru \<and> IsVerifiedUser ru
      else if action \<in> set [''update'', ''partial_update'', ''destroy'']
        then IsAuthenticated ru \<and> IsAdmin ru
      else IsAuthenticated ru)"

definition PaymentViewSet_get_queryset :: "db \<Rightarrow> user \<Rightarrow> payment list" where
  "PaymentViewSet_get_queryset d u =
     (if is_staff u then payments d
      else filter (\<lambda>p. payer p = user_pk u \<or> receiver p = user_pk u) (payments d))"

text \<open>
  \<open>payment.invoice\<close> is the reverse side of the one-to-one column \<open>Invoice.payment\<close>:
  the invoice that points to the payment, if there is one.
\<close>

definition payment_invoice :: "db \<Rightarrow> payment \<Rightarrow> invoice option" where
  "payment_invoice d p = find (\<lambda>i. invoice_payment i = Some (payment_pk p)) (invoices d)"

text \<open>The row that \<open>verify_payment\<close> adds to the transactions of a payment.\<close>

definition verification_row :: "payment \<Rightarrow> transaction" where
  "verification_row p =
     \<lparr>transaction_payment = payment_pk p, transaction_type = ''verification'',
      transaction_amount = payment_amount p, transaction_status = ''success'',
      gateway_response = ''Payment verified successfully''\<rparr>"

text \<open>The \<open>verify_payment\<close> action.\<close>

definition PaymentViewSet_verify_payment ::
  "timestamp \<Rightarrow> db \<Rightarrow> user option \<Rightarrow> pk \<Rightarrow> payment response \<times> db" where
  "PaymentViewSet_verify_payment now d ru k =
     (if \<not> PaymentViewSet_get_permissions ''verify_payment'' ru then (permission_denied ru, d)
      else case ru of
             None \<Rightarrow> (permission_denied ru, d)
           | Some u \<Rightarrow>
               (case objects_get payment_pk (PaymentViewSet_get_queryset d u) k of
                  None \<Rightarrow> (HTTP_404_NOT_FOUND, d)
                | Some p0 \<Rightarrow>
                    (case Payment_save now
                            (p0\<lparr>payment_status := Payment_COMPLETED, completed_at := Some now\<rparr>) d of
                       (p, d1) \<Rightarrow>
                         (let d2 = d1\<lparr>transactions := transactions d1 @ [verification_row p]\<rparr>
                          in case payment_invoice d2 p of
                               None \<Rightarrow> (HTTP_200_OK p, d2)
                             | Some i0 \<Rightarrow>
                                 (case Invoice_save now (i0\<lparr>invoice_status := Invoice_PAID\<rparr>) d2 of
                                    (i, d3) \<Rightarrow> (HTTP_200_OK p, d3))))))"

section \<open>payments/serializers.py and the invoice routes\<close>

text \<open>
  When a serializer's fields are first used, the framework binds each declared field
  to its name, and \<^verbatim>\<open>Field.bind\<close> asserts that a field's \<^verbatim>\<open>source\<close> argument is not
  the field's own name. \<open>InvoiceSerializer\<close> declares five fields, listed here with
  their \<^verbatim>\<open>source\<close> arguments; \<open>is_overdue\<close> is declared with
  \<^verbatim>\<open>source='is_overdue'\<close>.
\<close>

definition Field_bind :: "string \<Rightarrow> string option \<Rightarrow> exn option" where
  "Field_bind field_name source = (if source = Some field_name then Some AssertionError else None)"

definition InvoiceSerializer_declared_fields :: "(string \<times> string option) list" where
  "InvoiceSerializer_declared_fields =
     [(''property'', None), (''property_id'', Some ''property''), (''user'', None),
      (''payment'', None), (''is_overdue'', Some ''is_overdue'')]"

definition Field_bind_all :: "(string \<times> string option) list \<Rightarrow> exn option" where
  "Field_bind_all fs =
     (case filter (\<lambda>r. r \<noteq> None) (map (\<lambda>(n, src). Field_bind n src) fs) of
        [] \<Rightarrow> None
      | e # _ \<Rightarrow> e)"

text \<open>
  \<open>serializer.data\<close> of an invoice: the stored status and, from the method of the same
  name, \<open>is_overdue\<close>, once the fields are bound.
\<close>

definition InvoiceSerializer_data :: "timestamp \<Rightarrow> invoice \<Rightarrow> exn + invoice_status \<times> bool" where
  "InvoiceSerializer_data now i =
     (case Field_bind_all InvoiceSerializer_declared_fields of
        Some e \<Rightarrow> Inl e
      | None \<Rightarrow> Inr (invoice_status i, is_overdue now i))"

definition InvoiceViewSet_get_permissions :: "string \<Rightarrow> user option \<Rightarrow> bool" where
  "InvoiceViewSet_get_permissions action ru =
     (if action = ''create'' then IsAuthenticated ru
      else if action \<in> set [''update'', ''partial_update'', ''destroy''] then IsAuthenticated ru
      else IsAuthenticated ru)"

definition InvoiceViewSet_get_queryset :: "db \<Rightarrow> user \<Rightarrow> invoice list" where
  "InvoiceViewSet_get_queryset d u =
     (if is_staff u then invoices d
      else if role u \<in> set [PROPERTY_OWNER, REAL_ESTATE_FIRM] then
        filter (\<lambda>i. case objects_get property_pk (properties d) (invoice_property i) of
                       None \<Rightarrow> False
                     | Some p \<Rightarrow> owner p = user_pk u) (invoices d)
      else filter (\<lambda>i. invoice_user i = user_pk u) (invoices d))"

text \<open>
  The inherited \<open>retrieve\<close> action, the read of one invoice: the row is loaded and
  serialized; nothing is saved.
\<close>

definition InvoiceViewSet_retrieve ::
  "timestamp \<Rightarrow> db \<Rightarrow> user option \<Rightarrow> pk \<Rightarrow> (invoice_status \<times> bool) response" where
  "InvoiceViewSet_retrieve now d ru k =
     (if \<not> InvoiceViewSet_get_permissions ''retrieve'' ru then permission_denied ru
      else case ru of
             None \<Rightarrow> permission_denied ru
           | Some u \<Rightarrow>
               (case objects_get invoice_pk (InvoiceViewSet_get_queryset d u) k of
                  None \<Rightarrow> HTTP_404_NOT_FOUND
                | Some i \<Rightarrow>
                    (case InvoiceSerializer_data now i of
                       Inl e \<Rightarrow> Unhandled e
                     | Inr data \<Rightarrow> HTTP_200_OK data)))"

section \<open>The payment lattice of the specification\<close>

text \<open>
  The specification's table of allowed payment transitions, in its words:
  PENDING to COMPLETED or FAILED, COMPLETED to REFUNDED, nothing else. The source has
  no such table; this definition only serves to compare the two.
\<close>

fun spec_payment_allowed :: "payment_status \<Rightarrow> payment_status \<Rightarrow> bool" where
  "spec_payment_allowed Payment_PENDING Payment_COMPLETED = True"
| "spec_payment_allowed Payment_PENDING Payment_FAILED = True"
| "spec_payment_allowed Payment_COMPLETED Payment_REFUNDED = True"
| "spec_payment_allowed _ _ = False"

section \<open>Sample data\<close>

text \<open>
  A small database on which the theorems below are instantiated: an administrator, a
  government official, a verified property owner and an unverified buyer; a pending and
  a verified listing of the owner; the buyer's KYC record, lead, failed payment and
  unpaid invoice.
\<close>

definition sample_admin :: user where
  "sample_admin = \<lparr>user_pk = 1, email = ''admin@example.com'', first_name = ''Ada'',
     last_name = ''Obi'', role = ADMIN, is_verified = True, is_staff = True,
     is_superuser = True\<rparr>"

definition sample_government :: user where
  "sample_government = \<lparr>user_pk = 2, email = ''gov@example.com'', first_name = ''Gbenga'',
     last_name = ''Ade'', role = GOVERNMENT, is_verified = True, is_staff = False,
     is_superuser = False\<rparr>"

definition sample_owner :: user where
  "sample_owner = \<lparr>user_pk = 3, email = ''owner@example.com'', first_name = ''Ola'',
     last_name = ''Eze'', role = PROPERTY_OWNER, is_verified = True, is_staff = False,
     is_superuser = False\<rparr>"

definition sample_buyer :: user where
  "sample_buyer = \<lparr>user_pk = 4, email = ''buyer@example.com'', first_name = ''Bisi'',
     last_name = ''Okoro'', role = BUYER_RENTER, is_verified = False, is_staff = False,
     is_superuser = False\<rparr>"

definition sample_pending_property :: property where
  "sample_pending_property = \<lparr>property_pk = 1, owner = 3,
     verification_status = Property_PENDING, rejection_reason = None, verified_by = None,
     verified_at = None, is_active = True\<rparr>"

definition sample_verified_property :: property where
  "sample_verified_property = \<lparr>property_pk = 2, owner = 3,
     verification_status = Property_VERIFIED, rejection_reason = None, verified_by = Some 2,
     verified_at = Some 100, is_active = True\<rparr>"

definition sample_kyc :: kyc_verification where
  "sample_kyc = \<lparr>kyc_pk = 1, kyc_user = 4, kyc_status = KYC_PENDING, kyc_verified_at = None,
     kyc_verified_by = None, kyc_rejection_reason = None\<rparr>"

definition sample_lead :: lead where
  "sample_lead = \<lparr>lead_pk = 1, lead_user = 4, lead_property = 2, lead_status = ''new'',
     lead_message = ''Is it still available?''\<rparr>"

definition sample_payment :: payment where
  "sample_payment = \<lparr>payment_pk = 1, payment_property = 2, payer = 4, receiver = 3,
     payment_amount = 250000, payment_status = Payment_FAILED, completed_at = None\<rparr>"

definition sample_invoice :: invoice where
  "sample_invoice = \<lparr>invoice_pk = 1, invoice_property = 2, invoice_user = 4,
     invoice_payment = Some 1, invoice_amount = 250000, invoice_status = Invoice_PENDING,
     due_date = 10\<rparr>"

definition sample_db :: db where
  "sample_db = \<lparr>users = [sample_admin, sample_government, sample_owner, sample_buyer],
     kyc_verifications = [sample_kyc],
     properties = [sample_pending_property, sample_verified_property],
     leads = [sample_lead],
     payments = [sample_payment],
     transactions = [],
     invoices = [sample_invoice]\<rparr>"

section \<open>Facts about tables\<close>

lemma find_append_case:
  "find P (xs @ ys) = (case find P xs of None \<Rightarrow> find P ys | Some x \<Rightarrow> Some x)"
  by (induction xs) auto

lemma objects_get_SomeD:
  "objects_get key rows k = Some r \<Longrightarrow> key r = k \<and> r \<in> set rows"
  unfolding objects_get_def by (induction rows) (auto split: if_splits)

lemma objects_get_save_same:
  "objects_get key (objects_save key x rows) (key x) = Some x"
proof (cases "objects_get key rows (key x)")
  case None
  then have "find (\<lambda>r. key r = key x) rows = None" by (simp add: objects_get_def)
  then show ?thesis using None
    by (simp add: objects_save_def objects_get_def find_append_case)
next
  case (Some r)
  have "find (\<lambda>r. key r = key x) rows = Some r \<Longrightarrow>
        find (\<lambda>r. key r = key x) (map (\<lambda>r. if key r = key x then x else r) rows) = Some x"
    by (induction rows) (auto split: if_splits)
  then show ?thesis using Some by (simp add: objects_save_def objects_get_def)
qed

lemma filter_queryset_set:
  "set (filter_queryset fs rows) = {r \<in> set rows. \<forall>f \<in> set fs. f r}"
  unfolding filter_queryset_def by (induction fs arbitrary: rows) auto

lemmas sample_defs =
  sample_admin_def sample_government_def sample_owner_def sample_buyer_def
  sample_pending_property_def sample_verified_property_def sample_kyc_def sample_lead_def
  sample_payment_def sample_invoice_def sample_db_def

lemmas permission_defs =
  IsAuthenticated_def IsAdmin_def IsGovernmentAgency_def IsVerifiedUser_def
  IsPropertyOwnerOrRealEstateFirm_def AllowAny_def permission_denied_def
  is_admin_def is_government_def is_real_estate_firm_def is_property_owner_def
  is_buyer_renter_def

lemmas table_defs = objects_get_def objects_save_def

section \<open>Text fields\<close>

text \<open>What the text field accepts, and what it makes of an accepted value.\<close>

lemma CharField_run_validation_Some:
  "CharField_run_validation f data = Some v \<longleftrightarrow>
     v = strip data
     \<and> (if v = [] then allow_blank f
         else (case max_length f of None \<Rightarrow> True | Some n \<Rightarrow> length v \<le> n)
              \<and> CHR 0x00 \<notin> set v)"
  by (auto simp: CharField_run_validation_def split: option.splits)

lemma run_optional_reason:
  "run_optional rejection_reason_field v =
     (case v of
        None \<Rightarrow> Some None
      | Some data \<Rightarrow>
          if strip data = [] then Some (Some [])
          else if CHR 0x00 \<in> set (strip data) then None
          else Some (Some (strip data)))"
  by (simp add: run_optional_def CharField_run_validation_def rejection_reason_field_def
      split: option.splits)

lemmas field_defs =
  run_optional_def run_required_def CharField_run_validation_def strip_def isspace_def
  rejection_reason_field_def

section \<open>Property verification\<close>

lemma verify_permission:
  "PropertyViewSet_get_permissions ''verify'' ru
     = (case ru of None \<Rightarrow> False | Some u \<Rightarrow> role u = ADMIN \<or> role u = GOVERNMENT)"
  by (simp add: PropertyViewSet_get_permissions_def permission_defs split: option.splits)

lemma Property_save_get:
  "property_pk x = k \<Longrightarrow> objects_get property_pk (properties (Property_save x d)) k = Some x"
  using objects_get_save_same [of property_pk] by (auto simp: Property_save_def)

text \<open>
  What \<open>is_valid\<close> of the property serializer answers for a REJECTED request, by the
  reason it was sent.
\<close>

lemma property_rejection_is_valid:
  assumes "attrs_verification_status data = Some Property_REJECTED"
  shows "PropertyVerificationSerializer_is_valid data =
     (case attrs_rejection_reason data of
        None \<Rightarrow> Inl ''rejection_reason''
      | Some raw \<Rightarrow>
          if strip raw = [] \<or> CHR 0x00 \<in> set (strip raw) then Inl ''rejection_reason''
          else Inr (data\<lparr>attrs_rejection_reason := Some (strip raw)\<rparr>))"
  using assms
  by (simp add: PropertyVerificationSerializer_is_valid_def run_optional_reason
      PropertyVerificationSerializer_validate_def py_not_def split: option.splits)

text \<open>
  C1, as the code has it. An administrator or a government official asks for a
  transition of an active property. For VERIFIED, with no reason sent or with one that
  the text field accepts, the request succeeds and the stored row has status VERIFIED,
  \<open>verified_by\<close> the acting user, \<open>verified_at\<close> the current time and no rejection
  reason. For REJECTED with a reason that is not empty once it is stripped and holds no
  null character, the request succeeds and the stored row has status REJECTED and the
  stripped reason; every other column, \<open>verified_by\<close> and \<open>verified_at\<close> among them,
  keeps the value it had.
\<close>

theorem verify_transition_effects:
  assumes verifier: "role u = ADMIN \<or> role u = GOVERNMENT"
    and found: "objects_get property_pk (PropertyViewSet_queryset d) k = Some p"
  shows "(attrs_verification_status data = Some Property_VERIFIED
            \<and> (case attrs_rejection_reason data of
                  None \<Rightarrow> True
                | Some raw \<Rightarrow> CHR 0x00 \<notin> set (strip raw)) \<longrightarrow>
            (\<exists>d'. PropertyViewSet_verify now d (Some u) k data
                     = (HTTP_200_OK (Property_VERIFIED, None), d')
                 \<and> objects_get property_pk (properties d') k
                     = Some (p\<lparr>verification_status := Property_VERIFIED,
                               verified_by := Some (user_pk u), verified_at := Some now,
                               rejection_reason := None\<rparr>)))
       \<and> (attrs_verification_status data = Some Property_REJECTED
            \<and> attrs_rejection_reason data = Some raw
            \<and> strip raw \<noteq> [] \<and> CHR 0x00 \<notin> set (strip raw) \<longrightarrow>
            (\<exists>d'. PropertyViewSet_verify now d (Some u) k data
                     = (HTTP_200_OK (Property_REJECTED, Some (strip raw)), d')
                 \<and> objects_get property_pk (properties d') k
                     = Some (p\<lparr>verification_status := Property_REJECTED,
                               rejection_reason := Some (strip raw)\<rparr>)))"
proof -
  have perm: "PropertyViewSet_get_permissions ''verify'' (Some u)"
    using verifier by (simp add: verify_permission)
  have k: "property_pk p = k"
    using found objects_get_SomeD by fastforce
  have v: "attrs_verification_status data = Some Property_VERIFIED
            \<and> (case attrs_rejection_reason data of
                  None \<Rightarrow> True
                | Some raw \<Rightarrow> CHR 0x00 \<notin> set (strip raw)) \<longrightarrow>
            (\<exists>d'. PropertyViewSet_verify now d (Some u) k data
                     = (HTTP_200_OK (Property_VERIFIED, None), d')
                 \<and> objects_get property_pk (properties d') k
                     = Some (p\<lparr>verification_status := Property_VERIFIED,
                               verified_by := Some (user_pk u), verified_at := Some now,
                               rejection_reason := None\<rparr>))"
    using perm found k
    by (auto simp: PropertyViewSet_verify_def PropertyVerificationSerializer_is_valid_def
        run_optional_reason PropertyVerificationSerializer_validate_def
        PropertyVerificationSerializer_update_def Let_def Property_save_get
        split: option.splits)
  have r: "attrs_verification_status data = Some Property_REJECTED
            \<and> attrs_rejection_reason data = Some raw
            \<and> strip raw \<noteq> [] \<and> CHR 0x00 \<notin> set (strip raw) \<longrightarrow>
            (\<exists>d'. PropertyViewSet_verify now d (Some u) k data
                     = (HTTP_200_OK (Property_REJECTED, Some (strip raw)), d')
                 \<and> objects_get property_pk (properties d') k
                     = Some (p\<lparr>verification_status := Property_REJECTED,
                               rejection_reason := Some (strip raw)\<rparr>))"
    using perm found k
    by (auto simp: PropertyViewSet_verify_def property_rejection_is_valid
        PropertyVerificationSerializer_update_def Let_def Property_save_get)
  show ?thesis using v r by blast
qed

text \<open>
  The government official verifies the pending listing, and the administrator rejects
  the verified one with a reason sent with blanks around it.
\<close>

theorem verify_transition_effects_witness:
  "(\<exists>d'. PropertyViewSet_verify 100 sample_db (Some sample_government) 1
            \<lparr>attrs_verification_status = Some Property_VERIFIED, attrs_rejection_reason = None\<rparr>
            = (HTTP_200_OK (Property_VERIFIED, None), d')
        \<and> objects_get property_pk (properties d') 1
            = Some (sample_pending_property\<lparr>verification_status := Property_VERIFIED,
                      verified_by := Some 2, verified_at := Some 100,
                      rejection_reason := None\<rparr>))
   \<and> (\<exists>d'. PropertyViewSet_verify 100 sample_db (Some sample_admin) 2
            \<lparr>attrs_verification_status = Some Property_REJECTED,
             attrs_rejection_reason = Some '' Incomplete documentation  ''\<rparr>
            = (HTTP_200_OK (Property_REJECTED, Some ''Incomplete documentation''), d')
        \<and> objects_get property_pk (properties d') 2
            = Some (sample_verified_property\<lparr>verification_status := Property_REJECTED,
                      rejection_reason := Some ''Incomplete documentation''\<rparr>))"
proof -
  have g: "role sample_government = ADMIN \<or> role sample_government = GOVERNMENT"
    by (simp add: sample_defs)
  have a: "role sample_admin = ADMIN \<or> role sample_admin = GOVERNMENT"
    by (simp add: sample_defs)
  have f1: "objects_get property_pk (PropertyViewSet_queryset sample_db) 1
              = Some sample_pending_property"
    by (simp add: PropertyViewSet_queryset_def sample_defs table_defs)
  have f2: "objects_get property_pk (PropertyViewSet_queryset sample_db) 2
              = Some sample_verified_property"
    by (simp add: PropertyViewSet_queryset_def sample_defs table_defs)
  have s: "strip '' Incomplete documentation  '' = ''Incomplete documentation''"
    by (simp add: strip_def isspace_def)
  show ?thesis
    using verify_transition_effects [OF g f1, where now = 100 and data =
        "\<lparr>attrs_verification_status = Some Property_VERIFIED, attrs_rejection_reason = None\<rparr>"]
      verify_transition_effects [OF a f2, where now = 100
        and raw = "'' Incomplete documentation  ''" and data =
        "\<lparr>attrs_verification_status = Some Property_REJECTED,
          attrs_rejection_reason = Some '' Incomplete documentation  ''\<rparr>"]
    by (simp add: s sample_defs)
qed

text \<open>
  C1 as stated fails on its last part: rejecting the listing that official 2 verified
  at time 100 leaves both verifier columns as they were.
\<close>

theorem rejection_keeps_verifier_stamp:
  "case PropertyVerificationSerializer_update 200 (Some sample_government)
          sample_verified_property
          \<lparr>attrs_verification_status = Some Property_REJECTED,
           attrs_rejection_reason = Some ''Incomplete documentation''\<rparr> sample_db of
     Inl e \<Rightarrow> False
   | Inr (i, d') \<Rightarrow> verification_status i = Property_REJECTED
        \<and> verified_by i = Some 2 \<and> verified_at i = Some 100"
  by (simp add: PropertyVerificationSerializer_update_def Let_def
      sample_verified_property_def)

text \<open>
  C7. A user whose role is neither ADMIN nor GOVERNMENT is answered 403 by the
  \<open>verify\<close> action and the database is what it was; an anonymous request is answered
  401; and the action's permission check passes exactly for an authenticated user
  whose role is ADMIN or GOVERNMENT.
\<close>

theorem verify_forbidden_without_capability:
  "(role u \<noteq> ADMIN \<and> role u \<noteq> GOVERNMENT \<longrightarrow>
      PropertyViewSet_verify now d (Some u) k data = (HTTP_403_FORBIDDEN, d))
   \<and> PropertyViewSet_verify now d None k data = (HTTP_401_UNAUTHORIZED, d)
   \<and> (PropertyViewSet_get_permissions ''verify'' ru
        \<longleftrightarrow> (\<exists>v. ru = Some v \<and> (role v = ADMIN \<or> role v = GOVERNMENT)))"
  by (auto simp: PropertyViewSet_verify_def verify_permission permission_denied_def
      split: option.splits)

text \<open>
  The unverified buyer and the verified owner are both refused on the pending listing.
\<close>

theorem verify_forbidden_without_capability_witness:
  "PropertyViewSet_verify 100 sample_db (Some sample_buyer) 1
      \<lparr>attrs_verification_status = Some Property_VERIFIED, attrs_rejection_reason = None\<rparr>
     = (HTTP_403_FORBIDDEN, sample_db)
   \<and> PropertyViewSet_verify 100 sample_db (Some sample_owner) 1
      \<lparr>attrs_verification_status = Some Property_VERIFIED, attrs_rejection_reason = None\<rparr>
     = (HTTP_403_FORBIDDEN, sample_db)"
proof -
  have b: "role sample_buyer \<noteq> ADMIN \<and> role sample_buyer \<noteq> GOVERNMENT"
    by (simp add: sample_defs)
  have ow: "role sample_owner \<noteq> ADMIN \<and> role sample_owner \<noteq> GOVERNMENT"
    by (simp add: sample_defs)
  show ?thesis
    using verify_forbidden_without_capability [of sample_buyer 100 sample_db 1
        "\<lparr>attrs_verification_status = Some Property_VERIFIED, attrs_rejection_reason = None\<rparr>"]
      verify_forbidden_without_capability [of sample_owner 100 sample_db 1
        "\<lparr>attrs_verification_status = Some Property_VERIFIED, attrs_rejection_reason = None\<rparr>"]
      b ow
    by blast
qed

section \<open>Rejection and KYC review\<close>

lemma kyc_update_permission:
  "action \<in> set [''update'', ''partial_update''] \<Longrightarrow>
   KYCVerificationViewSet_get_permissions action ru
     = (case ru of None \<Rightarrow> False | Some u \<Rightarrow> role u = ADMIN \<or> role u = GOVERNMENT)"
  by (auto simp: KYCVerificationViewSet_get_permissions_def permission_defs split: option.splits)

lemma kyc_official_queryset:
  "role u = ADMIN \<or> role u = GOVERNMENT \<Longrightarrow>
   KYCVerificationViewSet_get_queryset d u = kyc_verifications d"
  by (auto simp: KYCVerificationViewSet_get_queryset_def permission_defs)

lemma KYCVerification_save_get:
  "kyc_pk x = k \<Longrightarrow>
   objects_get kyc_pk (kyc_verifications (KYCVerification_save x d)) k = Some x"
  using objects_get_save_same [of kyc_pk] by (auto simp: KYCVerification_save_def)

lemma User_save_get:
  "user_pk x = k \<Longrightarrow> objects_get user_pk (users (User_save x d)) k = Some x"
  using objects_get_save_same [of user_pk] by (auto simp: User_save_def)

lemma KYCVerification_save_users: "users (KYCVerification_save x d) = users d"
  by (simp add: KYCVerification_save_def)

lemma kyc_rejection_is_valid:
  assumes "attrs_status data = Some KYC_REJECTED"
  shows "KYCVerificationUpdateSerializer_is_valid data =
     (case attrs_kyc_rejection_reason data of
        None \<Rightarrow> Inl ''rejection_reason''
      | Some raw \<Rightarrow>
          if strip raw = [] \<or> CHR 0x00 \<in> set (strip raw) then Inl ''rejection_reason''
          else Inr (data\<lparr>attrs_kyc_rejection_reason := Some (strip raw)\<rparr>))"
  using assms
  by (simp add: KYCVerificationUpdateSerializer_is_valid_def run_optional_reason
      KYCVerificationUpdateSerializer_validate_def py_not_def split: option.splits)

text \<open>
  C2, as the code has it, for an official whose role is ADMIN or GOVERNMENT. Asking for
  REJECTED with no reason, or with one that is empty once it is stripped, is answered
  400 with the key \<open>rejection_reason\<close>, for a property and for a KYC record alike, and
  the database is what it was. Asking for REJECTED with a reason that is not empty once
  it is stripped and holds no null character succeeds: the stored row has status
  REJECTED and the stripped reason, and every other column of the row, the verifier
  stamp \<open>verified_by\<close> and \<open>verified_at\<close> included, keeps its value. (For a KYC record
  the user it belongs to has to exist, as the foreign key guarantees.)
\<close>

theorem rejection_requires_reason:
  assumes official: "role u = ADMIN \<or> role u = GOVERNMENT"
    and action: "action \<in> set [''update'', ''partial_update'']"
  shows
    "(objects_get property_pk (PropertyViewSet_queryset d) k = Some p
        \<and> attrs_verification_status data = Some Property_REJECTED
        \<and> py_not (map_option strip (attrs_rejection_reason data)) \<longrightarrow>
      PropertyViewSet_verify now d (Some u) k data
        = (HTTP_400_BAD_REQUEST ''rejection_reason'', d))
   \<and> (objects_get property_pk (PropertyViewSet_queryset d) k = Some p
        \<and> attrs_verification_status data = Some Property_REJECTED
        \<and> attrs_rejection_reason data = Some raw
        \<and> strip raw \<noteq> [] \<and> CHR 0x00 \<notin> set (strip raw) \<longrightarrow>
      (\<exists>d'. PropertyViewSet_verify now d (Some u) k data
               = (HTTP_200_OK (Property_REJECTED, Some (strip raw)), d')
           \<and> objects_get property_pk (properties d') k
               = Some (p\<lparr>verification_status := Property_REJECTED,
                         rejection_reason := Some (strip raw)\<rparr>)))
   \<and> (objects_get kyc_pk (kyc_verifications d) j = Some kv
        \<and> attrs_status kdata = Some KYC_REJECTED
        \<and> py_not (map_option strip (attrs_kyc_rejection_reason kdata)) \<longrightarrow>
      KYCVerificationViewSet_update action d (Some u) j kdata
        = (HTTP_400_BAD_REQUEST ''rejection_reason'', d))
   \<and> (objects_get kyc_pk (kyc_verifications d) j = Some kv
        \<and> objects_get user_pk (users d) (kyc_user kv) = Some usr
        \<and> attrs_status kdata = Some KYC_REJECTED
        \<and> attrs_kyc_rejection_reason kdata = Some kraw
        \<and> strip kraw \<noteq> [] \<and> CHR 0x00 \<notin> set (strip kraw) \<longrightarrow>
      (\<exists>d'. KYCVerificationViewSet_update action d (Some u) j kdata
               = (HTTP_200_OK (KYC_REJECTED, Some (strip kraw)), d')
           \<and> objects_get kyc_pk (kyc_verifications d') j
               = Some (kv\<lparr>kyc_status := KYC_REJECTED,
                          kyc_rejection_reason := Some (strip kraw)\<rparr>)))"
proof -
  have perm: "PropertyViewSet_get_permissions ''verify'' (Some u)"
    using official by (simp add: verify_permission)
  have kperm: "KYCVerificationViewSet_get_permissions action (Some u)"
    using official kyc_update_permission [OF action, of "Some u"] by simp
  have qs: "KYCVerificationViewSet_get_queryset d u = kyc_verifications d"
    using official by (rule kyc_official_queryset)
  have c1: "objects_get property_pk (PropertyViewSet_queryset d) k = Some p
        \<and> attrs_verification_status data = Some Property_REJECTED
        \<and> py_not (map_option strip (attrs_rejection_reason data)) \<longrightarrow>
      PropertyViewSet_verify now d (Some u) k data
        = (HTTP_400_BAD_REQUEST ''rejection_reason'', d)"
    using perm
    by (auto simp: PropertyViewSet_verify_def property_rejection_is_valid py_not_def
        split: option.splits)
  have c2: "objects_get property_pk (PropertyViewSet_queryset d) k = Some p
        \<and> attrs_verification_status data = Some Property_REJECTED
        \<and> attrs_rejection_reason data = Some raw
        \<and> strip raw \<noteq> [] \<and> CHR 0x00 \<notin> set (strip raw) \<longrightarrow>
      (\<exists>d'. PropertyViewSet_verify now d (Some u) k data
               = (HTTP_200_OK (Property_REJECTED, Some (strip raw)), d')
           \<and> objects_get property_pk (properties d') k
               = Some (p\<lparr>verification_status := Property_REJECTED,
                         rejection_reason := Some (strip raw)\<rparr>))"
  proof (intro impI, elim conjE)
    assume found: "objects_get property_pk (PropertyViewSet_queryset d) k = Some p"
      and st: "attrs_verification_status data = Some Property_REJECTED"
      and r: "attrs_rejection_reason data = Some raw" "strip raw \<noteq> []"
        "CHR 0x00 \<notin> set (strip raw)"
    have k: "property_pk p = k" using found objects_get_SomeD by fastforce
    show "\<exists>d'. PropertyViewSet_verify now d (Some u) k data
               = (HTTP_200_OK (Property_REJECTED, Some (strip raw)), d')
           \<and> objects_get property_pk (properties d') k
               = Some (p\<lparr>verification_status := Property_REJECTED,
                         rejection_reason := Some (strip raw)\<rparr>)"
      using perm found st r k
      by (simp add: PropertyViewSet_verify_def property_rejection_is_valid
          PropertyVerificationSerializer_update_def Let_def Property_save_get)
  qed
  have c3: "objects_get kyc_pk (kyc_verifications d) j = Some kv
        \<and> attrs_status kdata = Some KYC_REJECTED
        \<and> py_not (map_option strip (attrs_kyc_rejection_reason kdata)) \<longrightarrow>
      KYCVerificationViewSet_update action d (Some u) j kdata
        = (HTTP_400_BAD_REQUEST ''rejection_reason'', d)"
    using kperm qs
    by (auto simp: KYCVerificationViewSet_update_def kyc_rejection_is_valid py_not_def
        split: option.splits)
  have c4: "objects_get kyc_pk (kyc_verifications d) j = Some kv
        \<and> objects_get user_pk (users d) (kyc_user kv) = Some usr
        \<and> attrs_status kdata = Some KYC_REJECTED
        \<and> attrs_kyc_rejection_reason kdata = Some kraw
        \<and> strip kraw \<noteq> [] \<and> CHR 0x00 \<notin> set (strip kraw) \<longrightarrow>
      (\<exists>d'. KYCVerificationViewSet_update action d (Some u) j kdata
               = (HTTP_200_OK (KYC_REJECTED, Some (strip kraw)), d')
           \<and> objects_get kyc_pk (kyc_verifications d') j
               = Some (kv\<lparr>kyc_status := KYC_REJECTED,
                          kyc_rejection_reason := Some (strip kraw)\<rparr>))"
  proof (intro impI, elim conjE)
    assume found: "objects_get kyc_pk (kyc_verifications d) j = Some kv"
      and ow: "objects_get user_pk (users d) (kyc_user kv) = Some usr"
      and st: "attrs_status kdata = Some KYC_REJECTED"
      and r: "attrs_kyc_rejection_reason kdata = Some kraw" "strip kraw \<noteq> []"
        "CHR 0x00 \<notin> set (strip kraw)"
    have k: "kyc_pk kv = j" using found objects_get_SomeD by fastforce
    show "\<exists>d'. KYCVerificationViewSet_update action d (Some u) j kdata
               = (HTTP_200_OK (KYC_REJECTED, Some (strip kraw)), d')
           \<and> objects_get kyc_pk (kyc_verifications d') j
               = Some (kv\<lparr>kyc_status := KYC_REJECTED,
                          kyc_rejection_reason := Some (strip kraw)\<rparr>)"
      using kperm qs found ow st r k
      by (simp add: KYCVerificationViewSet_update_def kyc_rejection_is_valid
          KYCVerificationUpdateSerializer_update_def Let_def KYCVerification_save_get)
  qed
  show ?thesis using c1 c2 c3 c4 by blast
qed

text \<open>
  Both outcomes on the pending listing and on the buyer's KYC record: no reason and a
  reason of blanks are refused, a reason sent with blanks around it is stored stripped.
\<close>

theorem rejection_requires_reason_witness:
  "PropertyViewSet_verify 100 sample_db (Some sample_government) 1
      \<lparr>attrs_verification_status = Some Property_REJECTED, attrs_rejection_reason = None\<rparr>
     = (HTTP_400_BAD_REQUEST ''rejection_reason'', sample_db)
   \<and> (\<exists>d'. PropertyViewSet_verify 100 sample_db (Some sample_government) 1
              \<lparr>attrs_verification_status = Some Property_REJECTED,
               attrs_rejection_reason = Some ''No title deed ''\<rparr>
              = (HTTP_200_OK (Property_REJECTED, Some ''No title deed''), d')
          \<and> objects_get property_pk (properties d') 1
              = Some (sample_pending_property\<lparr>verification_status := Property_REJECTED,
                        rejection_reason := Some ''No title deed''\<rparr>))
   \<and> KYCVerificationViewSet_update ''partial_update'' sample_db (Some sample_admin) 1
        \<lparr>attrs_status = Some KYC_REJECTED, attrs_kyc_rejection_reason = Some ''   ''\<rparr>
     = (HTTP_400_BAD_REQUEST ''rejection_reason'', sample_db)
   \<and> (\<exists>d'. KYCVerificationViewSet_update ''partial_update'' sample_db (Some sample_admin) 1
              \<lparr>attrs_status = Some KYC_REJECTED,
               attrs_kyc_rejection_reason = Some ''ID document blurry''\<rparr>
              = (HTTP_200_OK (KYC_REJECTED, Some ''ID document blurry''), d')
          \<and> objects_get kyc_pk (kyc_verifications d') 1
              = Some (sample_kyc\<lparr>kyc_status := KYC_REJECTED,
                        kyc_rejection_reason := Some ''ID document blurry''\<rparr>))"
proof -
  have g: "role sample_government = ADMIN \<or> role sample_government = GOVERNMENT"
    by (simp add: sample_defs)
  have a: "role sample_admin = ADMIN \<or> role sample_admin = GOVERNMENT"
    by (simp add: sample_defs)
  have act: "''partial_update'' \<in> set [''update'', ''partial_update'']"
    by simp
  have fp: "objects_get property_pk (PropertyViewSet_queryset sample_db) 1
              = Some sample_pending_property"
    by (simp add: PropertyViewSet_queryset_def sample_defs table_defs)
  have fk: "objects_get kyc_pk (kyc_verifications sample_db) 1 = Some sample_kyc"
    by (simp add: sample_defs table_defs)
  have fu: "objects_get user_pk (users sample_db) (kyc_user sample_kyc) = Some sample_buyer"
    by (simp add: sample_defs table_defs)
  have s: "strip ''No title deed '' = ''No title deed''" "strip ''   '' = []"
    "strip ''ID document blurry'' = ''ID document blurry''"
    by (simp_all add: strip_def isspace_def)
  show ?thesis
    using rejection_requires_reason [OF g act, where d = sample_db and k = 1
        and p = sample_pending_property and now = 100 and data =
        "\<lparr>attrs_verification_status = Some Property_REJECTED, attrs_rejection_reason = None\<rparr>"]
      rejection_requires_reason [OF g act, where d = sample_db and k = 1
        and p = sample_pending_property and now = 100 and raw = "''No title deed ''" and data =
        "\<lparr>attrs_verification_status = Some Property_REJECTED,
          attrs_rejection_reason = Some ''No title deed ''\<rparr>"]
      rejection_requires_reason [OF a act, where d = sample_db and j = 1 and kv = sample_kyc
        and kdata =
        "\<lparr>attrs_status = Some KYC_REJECTED, attrs_kyc_rejection_reason = Some ''   ''\<rparr>"]
      rejection_requires_reason [OF a act, where d = sample_db and j = 1 and kv = sample_kyc
        and usr = sample_buyer and kraw = "''ID document blurry''" and kdata =
        "\<lparr>attrs_status = Some KYC_REJECTED,
          attrs_kyc_rejection_reason = Some ''ID document blurry''\<rparr>"]
      fp fk fu
    by (simp add: py_not_def s)
qed

text \<open>
  C2 as stated fails on its last part. The government official verifies listing 1 at
  time 100, the administrator rejects it at time 200 with a reason: both requests
  succeed, and the stored row still names official 2 and time 100.
\<close>

theorem reject_after_verify_keeps_stamp:
  "case PropertyViewSet_verify 100 sample_db (Some sample_government) 1
          \<lparr>attrs_verification_status = Some Property_VERIFIED, attrs_rejection_reason = None\<rparr> of
     (r1, d1) \<Rightarrow>
       (case PropertyViewSet_verify 200 d1 (Some sample_admin) 1
               \<lparr>attrs_verification_status = Some Property_REJECTED,
                attrs_rejection_reason = Some ''No title deed''\<rparr> of
          (r2, d2) \<Rightarrow>
            r1 = HTTP_200_OK (Property_VERIFIED, None)
            \<and> r2 = HTTP_200_OK (Property_REJECTED, Some ''No title deed'')
            \<and> map_option verified_by (objects_get property_pk (properties d2) 1) = Some (Some 2)
            \<and> map_option verified_at (objects_get property_pk (properties d2) 1)
                = Some (Some 100))"
  by (simp add: PropertyViewSet_verify_def PropertyViewSet_get_permissions_def
      PropertyViewSet_queryset_def PropertyVerificationSerializer_is_valid_def
      PropertyVerificationSerializer_validate_def PropertyVerificationSerializer_update_def
      Property_save_def py_not_def Let_def field_defs permission_defs table_defs sample_defs)

section \<open>KYC approval\<close>

text \<open>
  Approving never reaches the two saves: the expression for \<open>verified_at\<close> raises
  \<open>SkipField\<close>, which no handler turns into a response.
\<close>

lemma kyc_approval_unhandled:
  assumes official: "role u = ADMIN \<or> role u = GOVERNMENT"
    and action: "action \<in> set [''update'', ''partial_update'']"
    and found: "objects_get kyc_pk (kyc_verifications d) j = Some kv"
    and ow: "objects_get user_pk (users d) (kyc_user kv) = Some usr"
    and st: "attrs_status kdata = Some KYC_APPROVED"
    and reason: "run_optional rejection_reason_field (attrs_kyc_rejection_reason kdata) \<noteq> None"
  shows "KYCVerificationViewSet_update action d (Some u) j kdata = (Unhandled SkipField, d)"
proof -
  have kperm: "KYCVerificationViewSet_get_permissions action (Some u)"
    using official kyc_update_permission [OF action, of "Some u"] by simp
  have qs: "KYCVerificationViewSet_get_queryset d u = kyc_verifications d"
    using official by (rule kyc_official_queryset)
  show ?thesis
    using kperm qs found ow st reason
    by (auto simp: KYCVerificationViewSet_update_def
        KYCVerificationUpdateSerializer_is_valid_def
        KYCVerificationUpdateSerializer_validate_def
        KYCVerificationUpdateSerializer_update_def Let_def get_default_def DateTimeField_def
        split: option.splits)
qed

text \<open>
  C4 says that approving a KYC record sets \<open>is_verified\<close> of its user. On the sample
  data the administrator approves the buyer's record: the request ends in the unhandled
  exception, the database is what it was, and the buyer is still unverified.
\<close>

theorem kyc_approval_is_not_saved:
  "KYCVerificationViewSet_update ''partial_update'' sample_db (Some sample_admin) 1
      \<lparr>attrs_status = Some KYC_APPROVED, attrs_kyc_rejection_reason = None\<rparr>
     = (Unhandled SkipField, sample_db)
   \<and> map_option is_verified (objects_get user_pk (users sample_db) 4) = Some False"
  by (simp add: KYCVerificationViewSet_update_def KYCVerificationViewSet_get_permissions_def
      KYCVerificationViewSet_get_queryset_def KYCVerificationUpdateSerializer_is_valid_def
      KYCVerificationUpdateSerializer_validate_def KYCVerificationUpdateSerializer_update_def
      get_default_def DateTimeField_def Let_def field_defs permission_defs table_defs
      sample_defs)

text \<open>The other half of C4 holds: a rejection stores the user with \<open>is_verified\<close> false.\<close>

lemma kyc_rejection_unverifies_user:
  assumes official: "role u = ADMIN \<or> role u = GOVERNMENT"
    and action: "action \<in> set [''update'', ''partial_update'']"
    and found: "objects_get kyc_pk (kyc_verifications d) j = Some kv"
    and ow: "objects_get user_pk (users d) (kyc_user kv) = Some usr"
    and st: "attrs_status kdata = Some KYC_REJECTED"
    and r: "attrs_kyc_rejection_reason kdata = Some kraw" "strip kraw \<noteq> []"
      "CHR 0x00 \<notin> set (strip kraw)"
  shows "objects_get user_pk (users (snd (KYCVerificationViewSet_update action d (Some u) j kdata)))
           (kyc_user kv) = Some (usr\<lparr>is_verified := False\<rparr>)"
proof -
  have kperm: "KYCVerificationViewSet_get_permissions action (Some u)"
    using official kyc_update_permission [OF action, of "Some u"] by simp
  have qs: "KYCVerificationViewSet_get_queryset d u = kyc_verifications d"
    using official by (rule kyc_official_queryset)
  have k: "user_pk usr = kyc_user kv" using ow objects_get_SomeD by fastforce
  show ?thesis
    using kperm qs found ow st r k
    by (simp add: KYCVerificationViewSet_update_def kyc_rejection_is_valid
        KYCVerificationUpdateSerializer_update_def Let_def KYCVerification_save_users
        User_save_get)
qed

section \<open>Payments\<close>

text \<open>
  \<open>Payment.save\<close> stamps a completed payment once: a recorded time is kept, and a
  second save does not move the time the first one set.
\<close>

lemma Payment_save_hook_stamped:
  "completed_at p = Some t \<Longrightarrow> Payment_save_hook now p = p"
  by (simp add: Payment_save_hook_def)

lemma Payment_save_hook_keeps_stamp:
  "completed_at (Payment_save_hook later (Payment_save_hook now p))
     = completed_at (Payment_save_hook now p)"
  by (simp add: Payment_save_hook_def)

lemma verify_payment_permission:
  "PaymentViewSet_get_permissions ''verify_payment'' ru = (ru \<noteq> None)"
  by (simp add: PaymentViewSet_get_permissions_def permission_defs split: option.splits)

text \<open>
  The whole effect of one \<open>verify_payment\<close> request on a payment of the caller's
  queryset.
\<close>

lemma verify_payment_result:
  assumes found: "objects_get payment_pk (PaymentViewSet_get_queryset d u) k = Some p0"
    and p: "p = p0\<lparr>payment_status := Payment_COMPLETED, completed_at := Some now\<rparr>"
    and d2: "d2 = d\<lparr>payments := objects_save payment_pk p (payments d),
                     transactions := transactions d @ [verification_row p0]\<rparr>"
  shows "PaymentViewSet_verify_payment now d (Some u) k
           = (HTTP_200_OK p,
              case payment_invoice d p0 of
                None \<Rightarrow> d2
              | Some i \<Rightarrow> d2\<lparr>invoices :=
                    objects_save invoice_pk (i\<lparr>invoice_status := Invoice_PAID\<rparr>) (invoices d)\<rparr>)"
proof -
  have hook: "Payment_save_hook now p = p"
    by (rule Payment_save_hook_stamped [of _ now]) (simp add: p)
  have ihook: "\<And>i. Invoice_save_hook now (i\<lparr>invoice_status := Invoice_PAID\<rparr>)
                  = i\<lparr>invoice_status := Invoice_PAID\<rparr>"
    by (simp add: Invoice_save_hook_def is_overdue_def)
  have k: "payment_pk p0 = k" using found objects_get_SomeD by fastforce
  show ?thesis
    using found hook [unfolded p] k unfolding p d2
    by (simp add: PaymentViewSet_verify_payment_def verify_payment_permission
        Payment_save_def Invoice_save_def Let_def ihook payment_invoice_def
        verification_row_def split: option.splits)
qed

lemma verify_payment_stored:
  assumes found: "objects_get payment_pk (PaymentViewSet_get_queryset d u) k = Some p0"
  shows "objects_get payment_pk (payments (snd (PaymentViewSet_verify_payment now d (Some u) k))) k
           = Some (p0\<lparr>payment_status := Payment_COMPLETED, completed_at := Some now\<rparr>)"
proof -
  have k: "payment_pk p0 = k" using found objects_get_SomeD by fastforce
  have "objects_get payment_pk
          (objects_save payment_pk
             (p0\<lparr>payment_status := Payment_COMPLETED, completed_at := Some now\<rparr>) (payments d)) k
        = Some (p0\<lparr>payment_status := Payment_COMPLETED, completed_at := Some now\<rparr>)"
    using objects_get_save_same [of payment_pk
        "p0\<lparr>payment_status := Payment_COMPLETED, completed_at := Some now\<rparr>" "payments d"] k
    by simp
  then show ?thesis
    by (simp add: verify_payment_result [OF found refl refl] split: option.splits)
qed

text \<open>
  C3, as the code has it for a payment. The completion request \<open>verify_payment\<close>,
  made by an authenticated user on a payment of their queryset, is not checked against
  the current status: it answers 200 and stores the payment as COMPLETED, whatever the
  status of the payment was, PENDING, COMPLETED, FAILED or REFUNDED.
\<close>

theorem verify_payment_completes_from_any_status:
  assumes found: "objects_get payment_pk (PaymentViewSet_get_queryset d u) k = Some p0"
  shows "\<exists>p d'. PaymentViewSet_verify_payment now d (Some u) k = (HTTP_200_OK p, d')
           \<and> payment_status p = Payment_COMPLETED
           \<and> objects_get payment_pk (payments d') k = Some p"
proof -
  let ?p = "p0\<lparr>payment_status := Payment_COMPLETED, completed_at := Some now\<rparr>"
  let ?r = "PaymentViewSet_verify_payment now d (Some u) k"
  have "fst ?r = HTTP_200_OK ?p"
    by (simp add: verify_payment_result [OF found refl refl])
  then have "?r = (HTTP_200_OK ?p, snd ?r)"
    by (simp add: prod_eq_iff)
  moreover have "payment_status ?p = Payment_COMPLETED" by simp
  moreover have "objects_get payment_pk (payments (snd ?r)) k = Some ?p"
    by (rule verify_payment_stored [OF found])
  ultimately show ?thesis by blast
qed

lemmas payment_view_defs =
  PaymentViewSet_verify_payment_def PaymentViewSet_get_permissions_def
  PaymentViewSet_get_queryset_def payment_invoice_def Payment_save_def Payment_save_hook_def
  Invoice_save_def Invoice_save_hook_def is_overdue_def date_of_def verification_row_def

text \<open>The owner, as receiver, completes the sample payment, which is FAILED.\<close>

theorem verify_payment_completes_from_any_status_witness:
  "payment_status sample_payment = Payment_FAILED
   \<and> (\<exists>p d'. PaymentViewSet_verify_payment 500 sample_db (Some sample_owner) 1
                 = (HTTP_200_OK p, d')
              \<and> payment_status p = Payment_COMPLETED
              \<and> objects_get payment_pk (payments d') 1 = Some p)"
proof -
  have f: "objects_get payment_pk (PaymentViewSet_get_queryset sample_db sample_owner) 1
             = Some sample_payment"
    by (simp add: PaymentViewSet_get_queryset_def sample_defs table_defs)
  have s: "payment_status sample_payment = Payment_FAILED"
    by (simp add: sample_defs)
  show ?thesis
    using verify_payment_completes_from_any_status [OF f, of 500] s by simp
qed

text \<open>
  C3 as stated fails: the sample payment is FAILED, the specification's lattice has no
  step from FAILED to COMPLETED, and the payer's \<open>verify_payment\<close> request succeeds and
  stores it as COMPLETED.
\<close>

theorem failed_payment_is_completed:
  "payment_status sample_payment = Payment_FAILED
   \<and> \<not> spec_payment_allowed Payment_FAILED Payment_COMPLETED
   \<and> (case PaymentViewSet_verify_payment 500 sample_db (Some sample_buyer) 1 of
        (r, d') \<Rightarrow>
          (case r of HTTP_200_OK p \<Rightarrow> payment_status p = Payment_COMPLETED | _ \<Rightarrow> False)
          \<and> map_option payment_status (objects_get payment_pk (payments d') 1)
              = Some Payment_COMPLETED)"
  by (simp add: payment_view_defs Let_def permission_defs table_defs sample_defs)

text \<open>
  C5, as the code has it. \<open>Payment.save\<close> sets \<open>completed_at\<close> at most once: it keeps
  a recorded time, it stamps a COMPLETED payment that has none, and a second save leaves
  the time as the first save left it. A \<open>verify_payment\<close> request on a payment of the
  caller's queryset stores the payment as COMPLETED, adds one verification row to the
  transactions, and stores the invoice that points to the payment, if there is one, as
  PAID; it does so on every request, a repeated one included.
\<close>

theorem payment_completion_effects:
  "(completed_at p \<noteq> None \<longrightarrow> fst (Payment_save now p d) = p)
   \<and> (payment_status p = Payment_COMPLETED \<and> completed_at p = None \<longrightarrow>
        fst (Payment_save now p d) = p\<lparr>completed_at := Some now\<rparr>)
   \<and> completed_at (fst (Payment_save later (fst (Payment_save now p d)) d1))
        = completed_at (fst (Payment_save now p d))
   \<and> (objects_get payment_pk (PaymentViewSet_get_queryset d u) k = Some p0 \<longrightarrow>
        (\<exists>p' d'. PaymentViewSet_verify_payment now d (Some u) k = (HTTP_200_OK p', d')
            \<and> payment_status p' = Payment_COMPLETED
            \<and> objects_get payment_pk (payments d') k = Some p'
            \<and> transactions d' = transactions d @ [verification_row p0]
            \<and> (case payment_invoice d p0 of
                  None \<Rightarrow> invoices d' = invoices d
                | Some i \<Rightarrow> objects_get invoice_pk (invoices d') (invoice_pk i)
                             = Some (i\<lparr>invoice_status := Invoice_PAID\<rparr>))))"
proof -
  have a: "completed_at p \<noteq> None \<longrightarrow> fst (Payment_save now p d) = p"
    by (auto simp: Payment_save_def Payment_save_hook_def Let_def)
  have b: "payment_status p = Payment_COMPLETED \<and> completed_at p = None \<longrightarrow>
        fst (Payment_save now p d) = p\<lparr>completed_at := Some now\<rparr>"
    by (simp add: Payment_save_def Payment_save_hook_def Let_def)
  have c: "completed_at (fst (Payment_save later (fst (Payment_save now p d)) d1))
        = completed_at (fst (Payment_save now p d))"
    by (simp add: Payment_save_def Let_def Payment_save_hook_keeps_stamp)
  have e: "objects_get payment_pk (PaymentViewSet_get_queryset d u) k = Some p0 \<longrightarrow>
        (\<exists>p' d'. PaymentViewSet_verify_payment now d (Some u) k = (HTTP_200_OK p', d')
            \<and> payment_status p' = Payment_COMPLETED
            \<and> objects_get payment_pk (payments d') k = Some p'
            \<and> transactions d' = transactions d @ [verification_row p0]
            \<and> (case payment_invoice d p0 of
                  None \<Rightarrow> invoices d' = invoices d
                | Some i \<Rightarrow> objects_get invoice_pk (invoices d') (invoice_pk i)
                             = Some (i\<lparr>invoice_status := Invoice_PAID\<rparr>)))"
  proof
    assume found: "objects_get payment_pk (PaymentViewSet_get_queryset d u) k = Some p0"
    let ?p = "p0\<lparr>payment_status := Payment_COMPLETED, completed_at := Some now\<rparr>"
    let ?r = "PaymentViewSet_verify_payment now d (Some u) k"
    note res = verify_payment_result [OF found refl refl, of now]
    have r1: "?r = (HTTP_200_OK ?p, snd ?r)"
      by (simp add: res prod_eq_iff)
    have r2: "payment_status ?p = Payment_COMPLETED" by simp
    have r3: "objects_get payment_pk (payments (snd ?r)) k = Some ?p"
      by (rule verify_payment_stored [OF found])
    have r4: "transactions (snd ?r) = transactions d @ [verification_row p0]"
      by (simp add: res split: option.splits)
    have r5: "case payment_invoice d p0 of
                  None \<Rightarrow> invoices (snd ?r) = invoices d
                | Some i \<Rightarrow> objects_get invoice_pk (invoices (snd ?r)) (invoice_pk i)
                             = Some (i\<lparr>invoice_status := Invoice_PAID\<rparr>)"
    proof (cases "payment_invoice d p0")
      case None
      then show ?thesis by (simp add: res)
    next
      case (Some i)
      have "objects_get invoice_pk
              (objects_save invoice_pk (i\<lparr>invoice_status := Invoice_PAID\<rparr>) (invoices d))
              (invoice_pk i) = Some (i\<lparr>invoice_status := Invoice_PAID\<rparr>)"
        using objects_get_save_same [of invoice_pk "i\<lparr>invoice_status := Invoice_PAID\<rparr>"
            "invoices d"]
        by simp
      then show ?thesis using Some by (simp add: res)
    qed
    show "\<exists>p' d'. PaymentViewSet_verify_payment now d (Some u) k = (HTTP_200_OK p', d')
            \<and> payment_status p' = Payment_COMPLETED
            \<and> objects_get payment_pk (payments d') k = Some p'
            \<and> transactions d' = transactions d @ [verification_row p0]
            \<and> (case payment_invoice d p0 of
                  None \<Rightarrow> invoices d' = invoices d
                | Some i \<Rightarrow> objects_get invoice_pk (invoices d') (invoice_pk i)
                             = Some (i\<lparr>invoice_status := Invoice_PAID\<rparr>))"
      using r1 r2 r3 r4 r5 by blast
  qed
  show ?thesis using a b c e by blast
qed

text \<open>
  A completed payment stamped at 500 is saved at 900 and keeps its time; the payer's
  request on the sample payment completes it, adds the verification row and marks the
  sample invoice PAID.
\<close>

theorem payment_completion_effects_witness:
  "fst (Payment_save 900
          (sample_payment\<lparr>payment_status := Payment_COMPLETED, completed_at := Some 500\<rparr>)
          sample_db)
     = sample_payment\<lparr>payment_status := Payment_COMPLETED, completed_at := Some 500\<rparr>
   \<and> fst (Payment_save 900 (sample_payment\<lparr>payment_status := Payment_COMPLETED\<rparr>) sample_db)
     = sample_payment\<lparr>payment_status := Payment_COMPLETED, completed_at := Some 900\<rparr>
   \<and> (\<exists>p' d'. PaymentViewSet_verify_payment 500 sample_db (Some sample_buyer) 1
                  = (HTTP_200_OK p', d')
          \<and> payment_status p' = Payment_COMPLETED
          \<and> objects_get payment_pk (payments d') 1 = Some p'
          \<and> transactions d' = [verification_row sample_payment]
          \<and> objects_get invoice_pk (invoices d') 1
              = Some (sample_invoice\<lparr>invoice_status := Invoice_PAID\<rparr>))"
proof -
  have f: "objects_get payment_pk (PaymentViewSet_get_queryset sample_db sample_buyer) 1
             = Some sample_payment"
    by (simp add: PaymentViewSet_get_queryset_def sample_defs table_defs)
  have i: "payment_invoice sample_db sample_payment = Some sample_invoice"
    by (simp add: payment_invoice_def sample_defs)
  have t: "transactions sample_db = []" "invoice_pk sample_invoice = 1"
    "completed_at sample_payment = None"
    by (simp_all add: sample_defs)
  show ?thesis
    using payment_completion_effects [of
        "sample_payment\<lparr>payment_status := Payment_COMPLETED, completed_at := Some 500\<rparr>"
        900 sample_db]
      payment_completion_effects [of
        "sample_payment\<lparr>payment_status := Payment_COMPLETED\<rparr>" 900 sample_db]
      payment_completion_effects [where d = sample_db and u = sample_buyer and k = 1
        and ?p0.0 = sample_payment and now = 500]
      f i t
    by (simp split: option.splits)
qed

text \<open>
  C5 as stated fails. Two \<open>verify_payment\<close> requests on the sample payment, at times 500
  and 900: the stored \<open>completed_at\<close> is 500 after the first and 900 after the second,
  the invoice is PAID after each, and each request has added a transaction row.
\<close>

theorem second_verification_restamps_payment:
  "case PaymentViewSet_verify_payment 500 sample_db (Some sample_buyer) 1 of
     (r1, d1) \<Rightarrow>
       (case PaymentViewSet_verify_payment 900 d1 (Some sample_buyer) 1 of
          (r2, d2) \<Rightarrow>
            map_option completed_at (objects_get payment_pk (payments d1) 1) = Some (Some 500)
            \<and> map_option completed_at (objects_get payment_pk (payments d2) 1) = Some (Some 900)
            \<and> map_option invoice_status (objects_get invoice_pk (invoices d1) 1)
                = Some Invoice_PAID
            \<and> map_option invoice_status (objects_get invoice_pk (invoices d2) 1)
                = Some Invoice_PAID
            \<and> length (transactions d1) = 1
            \<and> length (transactions d2) = 2)"
  by (simp add: payment_view_defs Let_def permission_defs table_defs sample_defs)

section \<open>Property queries\<close>

lemma unverified_permissions:
  "\<not> is_verified u \<Longrightarrow>
   PropertyViewSet_get_permissions ''list'' (Some u)
   \<and> PropertyViewSet_get_permissions ''retrieve'' (Some u)
   \<and> \<not> PropertyViewSet_get_permissions ''search'' (Some u)
   \<and> \<not> PropertyViewSet_get_permissions ''my_properties'' (Some u)
   \<and> \<not> PropertyViewSet_get_permissions ''pending_verification'' (Some u)"
  by (simp add: PropertyViewSet_get_permissions_def permission_defs)

text \<open>
  C6, as the code has it. An unverified user can query properties through \<open>list\<close> and
  \<open>retrieve\<close> only. \<open>list\<close> returns exactly the active properties that pass the
  request's filters, and \<open>retrieve\<close> returns the active property with the given key,
  whatever the verification status of a row is. \<open>search\<close>, \<open>my_properties\<close> and
  \<open>pending_verification\<close> answer an unverified user with 403. Whenever \<open>search\<close>
  does answer with rows, each row is active and VERIFIED.
\<close>

theorem unverified_actor_property_queries:
  assumes unverified: "\<not> is_verified u"
  shows "(\<exists>rows. PropertyViewSet_list d (Some u) fs = HTTP_200_OK rows
            \<and> set rows = {p \<in> set (properties d). is_active p \<and> (\<forall>f \<in> set fs. f p)})
       \<and> (PropertyViewSet_retrieve d (Some u) fs k = HTTP_200_OK p \<longrightarrow>
            property_pk p = k \<and> p \<in> set (properties d) \<and> is_active p)
       \<and> (objects_get property_pk (filter is_active (properties d)) k = Some p \<longrightarrow>
            PropertyViewSet_retrieve d (Some u) [] k = HTTP_200_OK p)
       \<and> PropertyViewSet_search d (Some u) fs = HTTP_403_FORBIDDEN
       \<and> PropertyViewSet_my_properties d (Some u) = HTTP_403_FORBIDDEN
       \<and> PropertyViewSet_pending_verification d (Some u) = HTTP_403_FORBIDDEN
       \<and> (PropertyViewSet_search d ru fs = HTTP_200_OK found \<longrightarrow>
            (\<forall>p \<in> set found. verification_status p = Property_VERIFIED \<and> is_active p))"
proof -
  note perms = unverified_permissions [OF unverified]
  have l: "\<exists>rows. PropertyViewSet_list d (Some u) fs = HTTP_200_OK rows
            \<and> set rows = {p \<in> set (properties d). is_active p \<and> (\<forall>f \<in> set fs. f p)}"
    using perms
    by (auto simp: PropertyViewSet_list_def PropertyViewSet_queryset_def filter_queryset_set)
  have r1: "PropertyViewSet_retrieve d (Some u) fs k = HTTP_200_OK p \<longrightarrow>
            property_pk p = k \<and> p \<in> set (properties d) \<and> is_active p"
  proof
    assume a: "PropertyViewSet_retrieve d (Some u) fs k = HTTP_200_OK p"
    then have "objects_get property_pk (filter_queryset fs (PropertyViewSet_queryset d)) k = Some p"
      using perms by (simp add: PropertyViewSet_retrieve_def split: option.splits)
    then have "property_pk p = k \<and> p \<in> set (filter_queryset fs (PropertyViewSet_queryset d))"
      by (rule objects_get_SomeD)
    then show "property_pk p = k \<and> p \<in> set (properties d) \<and> is_active p"
      by (simp add: filter_queryset_set PropertyViewSet_queryset_def)
  qed
  have r2: "objects_get property_pk (filter is_active (properties d)) k = Some p \<longrightarrow>
            PropertyViewSet_retrieve d (Some u) [] k = HTTP_200_OK p"
    using perms
    by (simp add: PropertyViewSet_retrieve_def PropertyViewSet_queryset_def filter_queryset_def)
  have s1: "PropertyViewSet_search d (Some u) fs = HTTP_403_FORBIDDEN"
    using perms by (simp add: PropertyViewSet_search_def permission_denied_def)
  have m: "PropertyViewSet_my_properties d (Some u) = HTTP_403_FORBIDDEN"
    using perms by (simp add: PropertyViewSet_my_properties_def permission_denied_def)
  have pv: "PropertyViewSet_pending_verification d (Some u) = HTTP_403_FORBIDDEN"
    using perms by (simp add: PropertyViewSet_pending_verification_def permission_denied_def)
  have s2: "PropertyViewSet_search d ru fs = HTTP_200_OK found \<longrightarrow>
            (\<forall>p \<in> set found. verification_status p = Property_VERIFIED \<and> is_active p)"
    by (auto simp: PropertyViewSet_search_def permission_denied_def filter_queryset_set
        split: if_splits option.splits)
  show ?thesis using l r1 r2 s1 m pv s2 by blast
qed

text \<open>
  The unverified buyer lists and retrieves, and is refused by \<open>search\<close>; the verified
  owner's search returns the verified listing alone.
\<close>

theorem unverified_actor_property_queries_witness:
  "(\<exists>rows. PropertyViewSet_list sample_db (Some sample_buyer) [] = HTTP_200_OK rows
        \<and> set rows = {p \<in> set (properties sample_db). is_active p})
   \<and> PropertyViewSet_retrieve sample_db (Some sample_buyer) [] 1
        = HTTP_200_OK sample_pending_property
   \<and> PropertyViewSet_search sample_db (Some sample_buyer) [] = HTTP_403_FORBIDDEN
   \<and> PropertyViewSet_search sample_db (Some sample_owner) [] = HTTP_200_OK [sample_verified_property]
   \<and> verification_status sample_verified_property = Property_VERIFIED"
proof -
  have u: "\<not> is_verified sample_buyer" by (simp add: sample_defs)
  have f: "objects_get property_pk (filter is_active (properties sample_db)) 1
             = Some sample_pending_property"
    by (simp add: sample_defs table_defs)
  have s: "PropertyViewSet_search sample_db (Some sample_owner) []
             = HTTP_200_OK [sample_verified_property]"
    by (simp add: PropertyViewSet_search_def PropertyViewSet_get_permissions_def
        filter_queryset_def permission_defs sample_defs)
  show ?thesis
    using unverified_actor_property_queries [OF u, of sample_db "[]" 1 sample_pending_property
        "Some sample_owner" "[sample_verified_property]"] f s
    by simp
qed

text \<open>
  C6 as stated fails: the unverified buyer's \<open>list\<close> and \<open>retrieve\<close> requests return
  the pending listing.
\<close>

theorem list_returns_pending_property:
  "role sample_buyer = BUYER_RENTER \<and> \<not> is_verified sample_buyer
   \<and> PropertyViewSet_list sample_db (Some sample_buyer) []
        = HTTP_200_OK [sample_pending_property, sample_verified_property]
   \<and> PropertyViewSet_retrieve sample_db (Some sample_buyer) [] 1
        = HTTP_200_OK sample_pending_property
   \<and> verification_status sample_pending_property = Property_PENDING"
  by (simp add: PropertyViewSet_list_def PropertyViewSet_retrieve_def
      PropertyViewSet_get_permissions_def PropertyViewSet_queryset_def filter_queryset_def
      table_defs sample_defs)

section \<open>Lead status\<close>

lemmas lead_view_defs =
  LeadViewSet_update_status_def LeadViewSet_partial_update_def LeadViewSet_get_queryset_def
  LeadSerializer_is_valid_def LeadSerializer_update_def Lead_save_def Lead_STATUS_CHOICES_def
  run_optional_def
  Lead_NEW_def Lead_CONTACTED_def Lead_QUALIFIED_def Lead_LOST_def Lead_CONVERTED_def
  py_not_def dict_get_def

text \<open>
  C8 says that only the owner of the lead's property or an administrator can change a
  lead's status, through any update operation. On the sample data the lead is the
  buyer's, on a listing of the owner. \<open>update_status\<close> refuses the buyer with 403, but
  the buyer's \<open>partial_update\<close> request with a status succeeds and stores it. The
  administrator, who is not in the lead's queryset, is answered 404 by \<open>update_status\<close>.
\<close>

theorem lead_creator_writes_status:
  "lead_user sample_lead = user_pk sample_buyer
   \<and> map_option owner (objects_get property_pk (properties sample_db) (lead_property sample_lead))
       = Some (user_pk sample_owner)
   \<and> role sample_buyer = BUYER_RENTER
   \<and> LeadViewSet_update_status sample_db (Some sample_buyer) 1 (Some ''converted'')
       = (HTTP_403_FORBIDDEN, sample_db)
   \<and> (case LeadViewSet_partial_update sample_db (Some sample_buyer) 1
              \<lparr>attrs_property = None, attrs_lead_status = Some ''converted'',
               attrs_message = None\<rparr> of
         (r, d') \<Rightarrow>
           r = HTTP_200_OK (sample_lead\<lparr>lead_status := ''converted''\<rparr>)
           \<and> map_option lead_status (objects_get lead_pk (leads d') 1) = Some ''converted'')
   \<and> LeadViewSet_update_status sample_db (Some sample_admin) 1 (Some ''contacted'')
       = (HTTP_404_NOT_FOUND, sample_db)"
  by (simp add: lead_view_defs Let_def permission_defs table_defs sample_defs)

lemma objects_get_filter_found:
  "objects_get key rows k = Some r \<Longrightarrow> P r \<Longrightarrow> objects_get key (filter P rows) k = Some r"
  unfolding objects_get_def by (induction rows) (auto split: if_splits)

text \<open>What \<open>update_status\<close> does for the owner of the lead's property.\<close>

lemma update_status_by_owner:
  assumes holder: "is_property_owner u \<or> is_real_estate_firm u"
    and found: "objects_get lead_pk (leads d) k = Some l"
    and listing: "objects_get property_pk (properties d) (lead_property l) = Some p"
    and owns: "owner p = user_pk u"
  shows "(v \<in> set [Lead_NEW, Lead_CONTACTED, Lead_QUALIFIED, Lead_LOST, Lead_CONVERTED] \<longrightarrow>
           (\<exists>d'. LeadViewSet_update_status d (Some u) k (Some v)
                    = (HTTP_200_OK (l\<lparr>lead_status := v\<rparr>), d')
                \<and> objects_get lead_pk (leads d') k = Some (l\<lparr>lead_status := v\<rparr>)))
       \<and> (v \<notin> set [Lead_NEW, Lead_CONTACTED, Lead_QUALIFIED, Lead_LOST, Lead_CONVERTED] \<longrightarrow>
           LeadViewSet_update_status d (Some u) k (Some v) = (HTTP_400_BAD_REQUEST ''detail'', d))
       \<and> LeadViewSet_update_status d (Some u) k None = (HTTP_400_BAD_REQUEST ''detail'', d)"
proof -
  have k: "lead_pk l = k"
    using found objects_get_SomeD by fastforce
  have qs: "objects_get lead_pk (LeadViewSet_get_queryset d u) k = Some l"
    using holder listing owns objects_get_filter_found [OF found]
    by (simp add: LeadViewSet_get_queryset_def)
  have keys: "set (map fst Lead_STATUS_CHOICES)
                = set [Lead_NEW, Lead_CONTACTED, Lead_QUALIFIED, Lead_LOST, Lead_CONVERTED]"
    by (simp add: Lead_STATUS_CHOICES_def)
  have nonempty: "v \<in> set (map fst Lead_STATUS_CHOICES) \<Longrightarrow> v \<noteq> []"
    by (auto simp: Lead_STATUS_CHOICES_def Lead_NEW_def Lead_CONTACTED_def Lead_QUALIFIED_def
        Lead_LOST_def Lead_CONVERTED_def)
  have saved: "objects_get lead_pk (leads (Lead_save (l\<lparr>lead_status := v\<rparr>) d)) k
                 = Some (l\<lparr>lead_status := v\<rparr>)"
    using objects_get_save_same [of lead_pk "l\<lparr>lead_status := v\<rparr>" "leads d"] k
    by (simp add: Lead_save_def)
  have ok: "v \<in> set (map fst Lead_STATUS_CHOICES) \<Longrightarrow>
        LeadViewSet_update_status d (Some u) k (Some v)
          = (HTTP_200_OK (l\<lparr>lead_status := v\<rparr>), Lead_save (l\<lparr>lead_status := v\<rparr>) d)"
    using qs listing owns nonempty
    by (simp add: LeadViewSet_update_status_def IsAuthenticated_def py_not_def dict_get_def
        Let_def)
  have bad: "v \<notin> set (map fst Lead_STATUS_CHOICES) \<Longrightarrow>
        LeadViewSet_update_status d (Some u) k (Some v) = (HTTP_400_BAD_REQUEST ''detail'', d)"
    using qs
    by (simp add: LeadViewSet_update_status_def IsAuthenticated_def py_not_def dict_get_def)
  have none: "LeadViewSet_update_status d (Some u) k None = (HTTP_400_BAD_REQUEST ''detail'', d)"
    using qs
    by (simp add: LeadViewSet_update_status_def IsAuthenticated_def py_not_def)
  show ?thesis
    using ok bad none saved unfolding keys by blast
qed

section \<open>Overdue invoices\<close>

text \<open>
  C9, as the code has it. A save turns an invoice that is PENDING with a due date
  before today into an OVERDUE one, in memory and in the stored row, and leaves every
  other invoice as it is; \<open>is_overdue\<close> is exactly that condition. Once a save has made
  the invoice OVERDUE a later save keeps it so.
\<close>

theorem invoice_overdue_on_save:
  "fst (Invoice_save now i d)
     = (if invoice_status i = Invoice_PENDING \<and> due_date i < date_of now
        then i\<lparr>invoice_status := Invoice_OVERDUE\<rparr> else i)
   \<and> objects_get invoice_pk (invoices (snd (Invoice_save now i d))) (invoice_pk i)
       = Some (fst (Invoice_save now i d))
   \<and> (is_overdue now i \<longleftrightarrow> invoice_status i = Invoice_PENDING \<and> due_date i < date_of now)
   \<and> fst (Invoice_save later (fst (Invoice_save now i d)) d')
       = (if invoice_status i = Invoice_PENDING \<and> due_date i < date_of now
          then i\<lparr>invoice_status := Invoice_OVERDUE\<rparr>
          else fst (Invoice_save later i d'))"
proof -
  have a: "invoice_pk (Invoice_save_hook now i) = invoice_pk i"
    by (simp add: Invoice_save_hook_def)
  have b: "objects_get invoice_pk (invoices (snd (Invoice_save now i d))) (invoice_pk i)
       = Some (fst (Invoice_save now i d))"
    using objects_get_save_same [of invoice_pk "Invoice_save_hook now i" "invoices d"] a
    by (simp add: Invoice_save_def Let_def)
  show ?thesis
    using b by (simp add: Invoice_save_def Invoice_save_hook_def is_overdue_def Let_def)
qed

text \<open>
  The sample invoice is due on day 10. Saved on day 20 it becomes OVERDUE; as a PAID
  invoice, or saved on day 0, it stays as it is.
\<close>

theorem invoice_overdue_on_save_witness:
  "fst (Invoice_save 1728000 sample_invoice sample_db)
     = sample_invoice\<lparr>invoice_status := Invoice_OVERDUE\<rparr>
   \<and> objects_get invoice_pk (invoices (snd (Invoice_save 1728000 sample_invoice sample_db))) 1
       = Some (sample_invoice\<lparr>invoice_status := Invoice_OVERDUE\<rparr>)
   \<and> fst (Invoice_save 1728000 (sample_invoice\<lparr>invoice_status := Invoice_PAID\<rparr>) sample_db)
       = sample_invoice\<lparr>invoice_status := Invoice_PAID\<rparr>
   \<and> fst (Invoice_save 500 sample_invoice sample_db) = sample_invoice"
proof -
  have d: "date_of 1728000 = 20" "date_of 500 = 0" by (simp_all add: date_of_def)
  have s: "invoice_status sample_invoice = Invoice_PENDING" "due_date sample_invoice = 10"
    "invoice_pk sample_invoice = 1"
    by (simp_all add: sample_defs)
  show ?thesis
    using invoice_overdue_on_save [of 1728000 sample_invoice sample_db]
      invoice_overdue_on_save [of 1728000 "sample_invoice\<lparr>invoice_status := Invoice_PAID\<rparr>"
        sample_db]
      invoice_overdue_on_save [of 500 sample_invoice sample_db]
    by (simp add: d s)
qed

text \<open>
  C9 as stated fails for a read. On day 20 the sample invoice is PENDING and past its
  due date. The buyer it is billed to reads it through the \<open>retrieve\<close> route: the
  request ends in the assertion error of the serializer's \<open>is_overdue\<close> field, so no
  status OVERDUE is returned, and the row is stored as PENDING as before.
\<close>

theorem overdue_invoice_read_is_not_overdue:
  "is_overdue 1728000 sample_invoice
   \<and> InvoiceViewSet_retrieve 1728000 sample_db (Some sample_buyer) 1 = Unhandled AssertionError
   \<and> map_option invoice_status (objects_get invoice_pk (invoices sample_db) 1)
       = Some Invoice_PENDING"
  by (simp add: InvoiceViewSet_retrieve_def InvoiceViewSet_get_permissions_def
      InvoiceViewSet_get_queryset_def InvoiceSerializer_data_def Field_bind_all_def
      Field_bind_def InvoiceSerializer_declared_fields_def is_overdue_def date_of_def
      permission_defs table_defs sample_defs)

section \<open>Registration\<close>

lemma fold_max_ge: "m \<le> fold max xs (m::nat)"
  by (induction xs arbitrary: m) (auto intro: order_trans [OF max.cobounded2])

lemma fold_max_mem: "x \<in> set xs \<Longrightarrow> x \<le> fold max xs (m::nat)"
proof (induction xs arbitrary: m)
  case Nil
  then show ?case by simp
next
  case (Cons y ys)
  show ?case
  proof (cases "x = y")
    case True
    have "y \<le> max y m" by simp
    also have "\<dots> \<le> fold max ys (max y m)" by (rule fold_max_ge)
    finally show ?thesis using True by simp
  next
    case False
    then have "x \<in> set ys" using Cons.prems by simp
    then show ?thesis using Cons.IH by simp
  qed
qed

lemma fresh_pk_new: "r \<in> set rows \<Longrightarrow> key r \<noteq> fresh_pk key rows"
proof
  assume m: "r \<in> set rows" and e: "key r = fresh_pk key rows"
  have "key r \<in> set (map key rows)" using m by simp
  then have "key r \<le> fold max (map key rows) 0" by (rule fold_max_mem)
  then show False using e by (simp add: fresh_pk_def)
qed

lemma objects_get_appended:
  "(\<And>r. r \<in> set rows \<Longrightarrow> key r \<noteq> key x) \<Longrightarrow> objects_get key (rows @ [x]) (key x) = Some x"
  unfolding objects_get_def by (induction rows) auto

text \<open>A required field that allows no blank accepts no empty value.\<close>

lemma run_required_nonempty:
  "run_required f v = Some x \<Longrightarrow> \<not> allow_blank f \<Longrightarrow> x \<noteq> []"
  by (auto simp: run_required_def CharField_run_validation_def split: option.splits if_splits)

text \<open>
  C10. Registration needs no authenticated user. Take a request whose address the
  email field accepts as \<open>e\<close>, where \<open>e\<close> passes the email validator and is no stored
  user's address before or after normalisation, whose optional names the name field
  accepts, and whose password and confirmation the password field accepts as the same
  string. It is answered 201, and the stored user has the role the request supplied,
  BUYER_RENTER when it supplied none. A successful profile update through
  \<open>UserUpdateSerializer\<close> leaves the role of the stored user as it was.
\<close>

theorem registration_stores_supplied_role:
  assumes address: "run_required email_field (attrs_email data) = Some e"
    and wellformed: "valid_email e"
    and free: "e \<notin> set (map email (users d))"
    and free_normalized: "normalize_email e \<notin> set (map email (users d))"
    and first_ok: "run_optional name_field (attrs_first_name data) \<noteq> None"
    and last_ok: "run_optional name_field (attrs_last_name data) \<noteq> None"
    and password: "run_required password_field (attrs_password data) = Some pw"
    and confirmation: "run_required password_field (attrs_password_confirmation data) = Some pw"
  shows "(\<exists>u d'. UserViewSet_create valid_email normalize_email d ru data
                   = (HTTP_201_CREATED u, d')
            \<and> role u = (case attrs_role data of None \<Rightarrow> BUYER_RENTER | Some r \<Rightarrow> r)
            \<and> objects_get user_pk (users d') (user_pk u) = Some u)
       \<and> (UserViewSet_update action d ru k changes = (HTTP_200_OK u', d'') \<longrightarrow>
            (\<exists>i. objects_get user_pk (users d) k = Some i \<and> role u' = role i
                 \<and> objects_get user_pk (users d'') k = Some u'))"
proof -
  obtain first_arg last_arg
    where fa: "run_optional name_field (attrs_first_name data) = Some first_arg"
      and la: "run_optional name_field (attrs_last_name data) = Some last_arg"
    using first_ok last_ok by auto
  have ne: "e \<noteq> []"
    using run_required_nonempty [OF address] by (simp add: email_field_def)
  define u where "u = \<lparr>user_pk = fresh_pk user_pk (users d),
      email = normalize_email e,
      first_name = dict_get first_arg [],
      last_name = dict_get last_arg [],
      role = dict_get (attrs_role data) BUYER_RENTER, is_verified = False,
      is_staff = False, is_superuser = False\<rparr>"
  have accepted: "UserSerializer_is_valid valid_email d data
           = Inr \<lparr>attrs_email = Some e, attrs_password = Some pw,
                  attrs_password_confirmation = Some pw, attrs_first_name = first_arg,
                  attrs_last_name = last_arg, attrs_role = attrs_role data\<rparr>"
    using address wellformed free fa la password confirmation
    by (simp add: UserSerializer_is_valid_def UserSerializer_validate_def)
  have created: "UserViewSet_create valid_email normalize_email d ru data
      = (HTTP_201_CREATED u, d\<lparr>users := users d @ [u]\<rparr>)"
    using ne free_normalized
    by (simp add: UserViewSet_create_def UserViewSet_get_permissions_def AllowAny_def
        accepted UserSerializer_create_def create_user_def Let_def u_def)
  have pk: "user_pk u = fresh_pk user_pk (users d)" by (simp add: u_def)
  have stored: "objects_get user_pk (users d @ [u]) (user_pk u) = Some u"
    by (rule objects_get_appended) (simp add: pk fresh_pk_new)
  have r: "role u = (case attrs_role data of None \<Rightarrow> BUYER_RENTER | Some r \<Rightarrow> r)"
    by (simp add: u_def dict_get_def)
  have upd: "UserViewSet_update action d ru k changes = (HTTP_200_OK u', d'') \<longrightarrow>
            (\<exists>i. objects_get user_pk (users d) k = Some i \<and> role u' = role i
                 \<and> objects_get user_pk (users d'') k = Some u')"
  proof
    assume a: "UserViewSet_update action d ru k changes = (HTTP_200_OK u', d'')"
    then obtain i attrs where i: "objects_get user_pk (users d) k = Some i"
      and res: "UserUpdateSerializer_update i attrs d = (u', d'')"
      by (auto simp: UserViewSet_update_def permission_denied_def
          split: if_splits option.splits prod.splits sum.splits)
    have ki: "user_pk i = k" using i objects_get_SomeD by fastforce
    have ru': "role u' = role i" and ku: "user_pk u' = k" and d'': "d'' = User_save u' d"
      using res ki
      by (auto simp: UserUpdateSerializer_update_def Let_def split: option.splits)
    have "objects_get user_pk (users d'') k = Some u'"
      using objects_get_save_same [of user_pk u' "users d"] ku d''
      by (simp add: User_save_def)
    then show "\<exists>i. objects_get user_pk (users d) k = Some i \<and> role u' = role i
                 \<and> objects_get user_pk (users d'') k = Some u'"
      using i ru' by blast
  qed
  show ?thesis using created stored r upd by auto
qed

text \<open>
  With an address accepted when it has an at sign, an anonymous request registers an
  ADMIN, a GOVERNMENT and a default user, the password sent once with blanks around it;
  the buyer changes their first name and keeps their role.
\<close>

theorem registration_stores_supplied_role_witness:
  "(\<exists>u d'. UserViewSet_create (\<lambda>e. CHR ''@'' \<in> set e) (\<lambda>e. e) sample_db None
              \<lparr>attrs_email = Some ''new@example.com'', attrs_password = Some '' pw '',
               attrs_password_confirmation = Some ''pw'', attrs_first_name = None,
               attrs_last_name = None, attrs_role = Some ADMIN\<rparr> = (HTTP_201_CREATED u, d')
          \<and> role u = ADMIN \<and> objects_get user_pk (users d') (user_pk u) = Some u)
   \<and> (\<exists>u d'. UserViewSet_create (\<lambda>e. CHR ''@'' \<in> set e) (\<lambda>e. e) sample_db None
              \<lparr>attrs_email = Some ''new@example.com'', attrs_password = Some '' pw '',
               attrs_password_confirmation = Some ''pw'', attrs_first_name = None,
               attrs_last_name = None, attrs_role = Some GOVERNMENT\<rparr>
              = (HTTP_201_CREATED u, d')
          \<and> role u = GOVERNMENT \<and> objects_get user_pk (users d') (user_pk u) = Some u)
   \<and> (\<exists>u d'. UserViewSet_create (\<lambda>e. CHR ''@'' \<in> set e) (\<lambda>e. e) sample_db None
              \<lparr>attrs_email = Some ''new@example.com'', attrs_password = Some '' pw '',
               attrs_password_confirmation = Some ''pw'', attrs_first_name = None,
               attrs_last_name = None, attrs_role = None\<rparr> = (HTTP_201_CREATED u, d')
          \<and> role u = BUYER_RENTER \<and> objects_get user_pk (users d') (user_pk u) = Some u)
   \<and> fst (UserViewSet_update ''partial_update'' sample_db (Some sample_buyer) 4
             \<lparr>upd_first_name = Some ''Bee'', upd_last_name = None\<rparr>)
       = HTTP_200_OK (sample_buyer\<lparr>first_name := ''Bee''\<rparr>)
   \<and> (\<exists>i. objects_get user_pk (users sample_db) 4 = Some i
          \<and> role (sample_buyer\<lparr>first_name := ''Bee''\<rparr>) = role i)"
proof -
  have e: "run_required email_field (Some ''new@example.com'') = Some ''new@example.com''"
    by (simp add: run_required_def CharField_run_validation_def strip_def isspace_def
        email_field_def)
  have v: "CHR ''@'' \<in> set ''new@example.com''" by simp
  have f: "''new@example.com'' \<notin> set (map email (users sample_db))"
    by (simp add: sample_defs)
  have n: "run_optional name_field None \<noteq> None" by (simp add: run_optional_def)
  have p: "run_required password_field (Some '' pw '') = Some ''pw''"
    "run_required password_field (Some ''pw'') = Some ''pw''"
    by (simp_all add: run_required_def CharField_run_validation_def strip_def isspace_def
        password_field_def)
  have g: "fst (UserViewSet_update ''partial_update'' sample_db (Some sample_buyer) 4
             \<lparr>upd_first_name = Some ''Bee'', upd_last_name = None\<rparr>)
       = HTTP_200_OK (sample_buyer\<lparr>first_name := ''Bee''\<rparr>)"
    by (simp add: UserViewSet_update_def UserViewSet_get_permissions_def
        UserUpdateSerializer_is_valid_def UserUpdateSerializer_update_def run_optional_def
        CharField_run_validation_def strip_def isspace_def name_field_def Let_def
        permission_defs table_defs sample_defs)
  have h: "UserViewSet_update ''partial_update'' sample_db (Some sample_buyer) 4
             \<lparr>upd_first_name = Some ''Bee'', upd_last_name = None\<rparr>
       = (HTTP_200_OK (sample_buyer\<lparr>first_name := ''Bee''\<rparr>),
          snd (UserViewSet_update ''partial_update'' sample_db (Some sample_buyer) 4
             \<lparr>upd_first_name = Some ''Bee'', upd_last_name = None\<rparr>))"
    using g by (simp add: prod_eq_iff)
  show ?thesis
    using registration_stores_supplied_role [where
        data = "\<lparr>attrs_email = Some ''new@example.com'', attrs_password = Some '' pw '',
          attrs_password_confirmation = Some ''pw'', attrs_first_name = None,
          attrs_last_name = None, attrs_role = Some ADMIN\<rparr>" and d = sample_db
        and valid_email = "\<lambda>e. CHR ''@'' \<in> set e" and e = "''new@example.com''"
        and pw = "''pw''" and normalize_email = "\<lambda>e. e" and ru = None]
      registration_stores_supplied_role [where
        data = "\<lparr>attrs_email = Some ''new@example.com'', attrs_password = Some '' pw '',
          attrs_password_confirmation = Some ''pw'', attrs_first_name = None,
          attrs_last_name = None, attrs_role = Some GOVERNMENT\<rparr>" and d = sample_db
        and valid_email = "\<lambda>e. CHR ''@'' \<in> set e" and e = "''new@example.com''"
        and pw = "''pw''" and normalize_email = "\<lambda>e. e" and ru = None]
      registration_stores_supplied_role [where
        data = "\<lparr>attrs_email = Some ''new@example.com'', attrs_password = Some '' pw '',
          attrs_password_confirmation = Some ''pw'', attrs_first_name = None,
          attrs_last_name = None, attrs_role = None\<rparr>" and d = sample_db
        and valid_email = "\<lambda>e. CHR ''@'' \<in> set e" and e = "''new@example.com''"
        and pw = "''pw''" and normalize_email = "\<lambda>e. e" and ru = None]
      registration_stores_supplied_role [where
        data = "\<lparr>attrs_email = Some ''new@example.com'', attrs_password = Some '' pw '',
          attrs_password_confirmation = Some ''pw'', attrs_first_name = None,
          attrs_last_name = None, attrs_role = None\<rparr>" and d = sample_db
        and valid_email = "\<lambda>e. CHR ''@'' \<in> set e" and e = "''new@example.com''"
        and pw = "''pw''" and normalize_email = "\<lambda>e. e" and ru = "Some sample_buyer"
        and action = "''partial_update''" and k = 4
        and changes = "\<lparr>upd_first_name = Some ''Bee'', upd_last_name = None\<rparr>"
        and u' = "sample_buyer\<lparr>first_name := ''Bee''\<rparr>"
        and d'' = "snd (UserViewSet_update ''partial_update'' sample_db (Some sample_buyer) 4
             \<lparr>upd_first_name = Some ''Bee'', upd_last_name = None\<rparr>)"]
      e v f n p g h
    by auto
qed

end
